theory Spec2Isabelle
  imports Main "HOL-Library.Word"
begin

unbundle bit_operations_syntax

section \<open>Strings\<close>

text \<open>
  The scripts work on JavaScript strings. They are modelled as HOL strings: one
  \<open>char\<close> is one UTF-16 code unit of the source, and the text is taken to have no
  code unit above U+00FF. The character classes of the regular expressions (\<open>\s\<close>,
  \<open>\d\<close>, the letters of \<open>stripQuestionNumber\<close>) and the case mappings are what the
  source's are on these code units. What is hashed is the UTF-8 encoding of the
  text. The platform is POSIX: \<open>path.sep\<close> is \<open>/\<close>.
\<close>

definition isSpace :: "char \<Rightarrow> bool" where
  \<comment> \<open>\<open>\s\<close>, and what \<open>String.prototype.trim\<close> removes: TAB, LF, VT, FF, CR, SPACE and
      the no-break space U+00A0\<close>
  "isSpace c = (c = CHR '' '' \<or> (9 \<le> (of_char c :: nat) \<and> (of_char c :: nat) \<le> 13)
                \<or> c = CHR 0xA0)"

definition isLineTerminator :: "char \<Rightarrow> bool" where
  \<comment> \<open>what \<open>.\<close> does not match\<close>
  "isLineTerminator c = (c = CHR 0x0A \<or> c = CHR 0x0D)"

definition isDigit :: "char \<Rightarrow> bool" where
  "isDigit c = (48 \<le> (of_char c :: nat) \<and> (of_char c :: nat) \<le> 57)"

definition isUpper :: "char \<Rightarrow> bool" where
  "isUpper c = (65 \<le> (of_char c :: nat) \<and> (of_char c :: nat) \<le> 90)"

definition isLower :: "char \<Rightarrow> bool" where
  "isLower c = (97 \<le> (of_char c :: nat) \<and> (of_char c :: nat) \<le> 122)"

text \<open>
  The case mappings of \<open>toLowerCase\<close> and \<open>toUpperCase\<close>, one code unit at a time.
  Beyond ASCII, U+00C0 to U+00DE without the multiplication sign U+00D7 are the
  capitals of U+00E0 to U+00FE without the division sign U+00F7. The upper-case forms
  of U+00DF, U+00B5 and U+00FF are not code units below U+0100; \<open>upperChar\<close> leaves
  these three as they are.
\<close>

definition isLatinUpper :: "char \<Rightarrow> bool" where
  "isLatinUpper c = (192 \<le> (of_char c :: nat) \<and> (of_char c :: nat) \<le> 222 \<and> c \<noteq> CHR 0xD7)"

definition isLatinLower :: "char \<Rightarrow> bool" where
  "isLatinLower c = (224 \<le> (of_char c :: nat) \<and> (of_char c :: nat) \<le> 254 \<and> c \<noteq> CHR 0xF7)"

definition lowerChar :: "char \<Rightarrow> char" where
  "lowerChar c =
     (if isUpper c then ''abcdefghijklmnopqrstuvwxyz'' ! ((of_char c :: nat) - 65)
      else if isLatinUpper c then char_of ((of_char c :: nat) + 32)
      else c)"

definition upperChar :: "char \<Rightarrow> char" where
  "upperChar c =
     (if isLower c then ''ABCDEFGHIJKLMNOPQRSTUVWXYZ'' ! ((of_char c :: nat) - 97)
      else if isLatinLower c then char_of ((of_char c :: nat) - 32)
      else c)"

definition toLowerCase :: "string \<Rightarrow> string" where
  "toLowerCase s = map lowerChar s"

definition toUpperCase :: "string \<Rightarrow> string" where
  "toUpperCase s = map upperChar s"

definition trimStart :: "string \<Rightarrow> string" where
  "trimStart s = dropWhile isSpace s"

definition trimEnd :: "string \<Rightarrow> string" where
  "trimEnd s = rev (dropWhile isSpace (rev s))"

definition trim :: "string \<Rightarrow> string" where
  "trim s = trimEnd (trimStart s)"

definition startsWith :: "string \<Rightarrow> string \<Rightarrow> bool" where
  \<comment> \<open>\<open>s.startsWith(p)\<close>\<close>
  "startsWith s p = (take (length p) s = p)"

definition endsWith :: "string \<Rightarrow> string \<Rightarrow> bool" where
  "endsWith s p = (length p \<le> length s \<and> drop (length s - length p) s = p)"

text \<open>
  \<open>s.split(sep)\<close> for a separator that is one character of a class (\<open>/[-_]/\<close>) or a
  fixed character: never empty, \<open>''''\<close> gives \<open>['''']\<close>.
\<close>

fun splitBy :: "(char \<Rightarrow> bool) \<Rightarrow> string \<Rightarrow> string list" where
  "splitBy isSep [] = [[]]"
| "splitBy isSep (c # cs) =
     (if isSep c then [] # splitBy isSep cs
      else (case splitBy isSep cs of
              [] \<Rightarrow> [[c]]
            | seg # segs \<Rightarrow> (c # seg) # segs))"

definition splitOn :: "char \<Rightarrow> string \<Rightarrow> string list" where
  "splitOn sep s = splitBy (\<lambda>c. c = sep) s"

text \<open>\<open>xs.join(sep)\<close>.\<close>

fun joinWith :: "string \<Rightarrow> string list \<Rightarrow> string" where
  "joinWith sep [] = []"
| "joinWith sep [x] = x"
| "joinWith sep (x # y # ys) = x @ sep @ joinWith sep (y # ys)"

section \<open>The path library (POSIX)\<close>

text \<open>
  \<open>path.posix.join\<close>, \<open>path.posix.normalize\<close> and \<open>path.resolve\<close> belong to the
  runtime, not to the repository. They are modelled after Node's \<open>lib/path.js\<close>:
  \<open>normalizeString\<close> walks the segments between slashes, drops empty ones and \<open>.\<close>,
  and lets \<open>..\<close> remove the segment before it unless that one is \<open>..\<close> itself or
  there is none (then \<open>..\<close> is kept only when the path is relative).
\<close>

fun normalizeSegments :: "bool \<Rightarrow> string list \<Rightarrow> string list \<Rightarrow> string list" where
  \<comment> \<open>second argument: the segments kept so far, last first\<close>
  "normalizeSegments allowAboveRoot acc [] = rev acc"
| "normalizeSegments allowAboveRoot acc (seg # segs) =
     (if seg = [] \<or> seg = ''.'' then normalizeSegments allowAboveRoot acc segs
      else if seg = ''..'' then
        (case acc of
           [] \<Rightarrow> normalizeSegments allowAboveRoot
                   (if allowAboveRoot then [''..''] else []) segs
         | seg' # below \<Rightarrow>
             if seg' = ''..''
             then normalizeSegments allowAboveRoot
                    (if allowAboveRoot then ''..'' # acc else acc) segs
             else normalizeSegments allowAboveRoot below segs)
      else normalizeSegments allowAboveRoot (seg # acc) segs)"

definition normalizeString :: "string \<Rightarrow> bool \<Rightarrow> string" where
  "normalizeString p allowAboveRoot =
     joinWith ''/'' (normalizeSegments allowAboveRoot [] (splitOn CHR ''/'' p))"

definition posix_normalize :: "string \<Rightarrow> string" where
  "posix_normalize p =
     (if p = [] then ''.''
      else
        let isAbsolute = (hd p = CHR ''/'');
            trailingSeparator = (last p = CHR ''/'');
            q = normalizeString p (\<not> isAbsolute)
        in if q = [] then (if isAbsolute then ''/'' else if trailingSeparator then ''./'' else ''.'')
           else (if isAbsolute then ''/'' else '''') @ q @ (if trailingSeparator then ''/'' else ''''))"

definition posix_join :: "string list \<Rightarrow> string" where
  "posix_join args =
     (let used = filter (\<lambda>a. a \<noteq> []) args
      in if used = [] then ''.'' else posix_normalize (joinWith ''/'' used))"

text \<open>
  \<open>path.resolve(root)\<close> with one argument; \<open>cwd\<close> is the process's working directory,
  which the runtime prepends when \<open>root\<close> is relative or empty.
\<close>

definition path_resolve :: "string \<Rightarrow> string \<Rightarrow> string" where
  "path_resolve cwd root =
     (let p1 = (if root = [] then [] else root @ ''/'');
          abs1 = (root \<noteq> [] \<and> hd root = CHR ''/'');
          p2 = (if abs1 \<or> cwd = [] then p1 else cwd @ ''/'' @ p1);
          abs2 = (abs1 \<or> (cwd \<noteq> [] \<and> hd cwd = CHR ''/''));
          q = normalizeString p2 (\<not> abs2)
      in if abs2 then ''/'' @ q else if q \<noteq> [] then q else ''.'')"

section \<open>Attachments and their URL normalisation\<close>

record attachment =
  att_id :: string
  url :: string
  type :: string

text \<open>\<open>/^https?:\/\//i.test(s)\<close>\<close>

definition isHttpUrl :: "string \<Rightarrow> bool" where
  "isHttpUrl s =
     (toLowerCase (take 7 s) = ''http://'' \<or> toLowerCase (take 8 s) = ''https://'')"

definition isAbsoluteRef :: "string \<Rightarrow> string \<Rightarrow> bool" where
  \<comment> \<open>the \<open>isAbsolute\<close> of both normalisers, on the trimmed url\<close>
  "isAbsoluteRef basePrefix trimmed =
     (isHttpUrl trimmed \<or> startsWith trimmed ''~'' \<or> startsWith trimmed ''/''
      \<or> startsWith trimmed basePrefix)"

definition stripPrefix :: "string \<Rightarrow> string \<Rightarrow> string" where
  \<comment> \<open>\<open>s.replace(/^p/, '')\<close> for a literal \<open>p\<close>\<close>
  "stripPrefix p s = (if startsWith s p then drop (length p) s else s)"

definition relPartsOf :: "string \<Rightarrow> string list" where
  \<comment> \<open>\<open>relDir ? relDir.split(path.sep).filter(Boolean) : []\<close>\<close>
  "relPartsOf relDir = (if relDir = [] then [] else filter (\<lambda>s. s \<noteq> []) (splitOn CHR ''/'' relDir))"

text \<open>
  \<open>normalizeAttachments\<close> of \<open>scripts/build-quizz-sets.js\<close>. The callback of its
  \<open>map\<close> is \<open>normalizeAttachment\<close>. An attachment is a record with a string url, so the
  guard \<open>!att || typeof att.url !== 'string'\<close> never fires.
\<close>

definition normalizeAttachment :: "string list \<Rightarrow> string \<Rightarrow> 'a attachment_scheme \<Rightarrow> 'a attachment_scheme" where
  "normalizeAttachment relParts basePrefix att =
     (let trimmed = trim (url att)
      in if isAbsoluteRef basePrefix trimmed
         then (if trimmed = url att then att else att\<lparr>url := trimmed\<rparr>)
         else
           let clean = stripPrefix ''/'' (stripPrefix ''./'' trimmed);
               normalized = posix_join (basePrefix # relParts @ [clean])
           in if normalized = url att then att else att\<lparr>url := normalized\<rparr>)"

definition normalizeAttachments ::
  "string \<Rightarrow> 'a attachment_scheme list \<Rightarrow> string \<Rightarrow> string \<Rightarrow> 'a attachment_scheme list" where
  "normalizeAttachments cwd attachments relDir root =
     (let relParts = relPartsOf relDir;
          basePrefix = path_resolve cwd root
      in map (normalizeAttachment relParts basePrefix) attachments)"

text \<open>
  The callback of \<open>normalizeAttachmentUrls\<close> in \<open>seeder.ts\<close>; it also says whether it
  counted a change (\<open>localChanges += 1\<close>).
\<close>

definition seedNormalizeAttachment ::
  "string list \<Rightarrow> string \<Rightarrow> 'a attachment_scheme \<Rightarrow> 'a attachment_scheme \<times> nat" where
  "seedNormalizeAttachment relParts absRoot att =
     (let trimmed = trim (url att)
      in if trimmed = [] then (att, 0)
         else if isAbsoluteRef absRoot trimmed
         then (if trimmed = url att then (att, 0) else (att\<lparr>url := trimmed\<rparr>, 0))
         else
           let clean = (if startsWith trimmed ''./'' then drop 2 trimmed
                        else if startsWith trimmed ''/'' then drop 1 trimmed
                        else trimmed);
               normalized = posix_join (absRoot # relParts @ [clean])
           in if normalized \<noteq> url att then (att\<lparr>url := normalized\<rparr>, 1) else (att, 0))"

section \<open>Identifiers\<close>

text \<open>
  \<open>stableId\<close> feeds each part, then \<open>|\<close>, to SHA-256 (\<open>crypto.createHash('sha256')\<close>)
  and keeps the first 24 characters of the hexadecimal digest. The hash is the
  runtime's; it is modelled after FIPS 180-4 so that \<open>stableId\<close> computes. The round
  constants are the first 32 bits of the fractional parts of the cube roots of the
  first 64 primes, the initial state those of the square roots of the first 8, both
  written in decimal.
\<close>

type_synonym u32 = "32 word"

definition rotr :: "nat \<Rightarrow> u32 \<Rightarrow> u32" where
  "rotr n x = (drop_bit n x) OR (push_bit (32 - n) x)"

definition Ch :: "u32 \<Rightarrow> u32 \<Rightarrow> u32 \<Rightarrow> u32" where
  "Ch x y z = (x AND y) XOR (NOT x AND z)"

definition Maj :: "u32 \<Rightarrow> u32 \<Rightarrow> u32 \<Rightarrow> u32" where
  "Maj x y z = (x AND y) XOR (x AND z) XOR (y AND z)"

definition bigSigma0 :: "u32 \<Rightarrow> u32" where
  "bigSigma0 x = rotr 2 x XOR rotr 13 x XOR rotr 22 x"

definition bigSigma1 :: "u32 \<Rightarrow> u32" where
  "bigSigma1 x = rotr 6 x XOR rotr 11 x XOR rotr 25 x"

definition smallSigma0 :: "u32 \<Rightarrow> u32" where
  "smallSigma0 x = rotr 7 x XOR rotr 18 x XOR drop_bit 3 x"

definition smallSigma1 :: "u32 \<Rightarrow> u32" where
  "smallSigma1 x = rotr 17 x XOR rotr 19 x XOR drop_bit 10 x"

definition sha256_K :: "u32 list" where
  "sha256_K =
    [1116352408, 1899447441, 3049323471, 3921009573, 961987163, 1508970993,
     2453635748, 2870763221, 3624381080, 310598401, 607225278, 1426881987,
     1925078388, 2162078206, 2614888103, 3248222580, 3835390401, 4022224774,
     264347078, 604807628, 770255983, 1249150122, 1555081692, 1996064986,
     2554220882, 2821834349, 2952996808, 3210313671, 3336571891, 3584528711,
     113926993, 338241895, 666307205, 773529912, 1294757372, 1396182291,
     1695183700, 1986661051, 2177026350, 2456956037, 2730485921, 2820302411,
     3259730800, 3345764771, 3516065817, 3600352804, 4094571909, 275423344,
     430227734, 506948616, 659060556, 883997877, 958139571, 1322822218,
     1537002063, 1747873779, 1955562222, 2024104815, 2227730452, 2361852424,
     2428436474, 2756734187, 3204031479, 3329325298]"

record hstate =
  ha :: u32
  hb :: u32
  hc :: u32
  hd' :: u32
  he :: u32
  hf :: u32
  hg :: u32
  hh :: u32

definition sha256_H0 :: hstate where
  "sha256_H0 = \<lparr>ha = 1779033703, hb = 3144134277, hc = 1013904242, hd' = 2773480762,
                 he = 1359893119, hf = 2600822924, hg = 528734635, hh = 1541459225\<rparr>"

definition utf8 :: "char \<Rightarrow> nat list" where
  \<comment> \<open>the UTF-8 bytes of a code unit below U+0100: one byte for ASCII, two above\<close>
  "utf8 c =
     (let n = (of_char c :: nat)
      in if n < 128 then [n] else [192 + n div 64, 128 + n mod 64])"

definition sha256_pad :: "string \<Rightarrow> nat list" where
  \<comment> \<open>the bytes, 0x80, zeros up to 56 modulo 64, the bit length on 8 bytes\<close>
  "sha256_pad msg =
     (let bytes = concat (map utf8 msg);
          n = length bytes;
          zeros = (119 - n mod 64) mod 64;
          bits = (8 * n) mod 2 ^ 64
      in bytes @ [128] @ replicate zeros 0
         @ map (\<lambda>i. (bits div 2 ^ (8 * (7 - i))) mod 256) [0..<8])"

fun chunks :: "nat \<Rightarrow> nat \<Rightarrow> 'a list \<Rightarrow> 'a list list" where
  \<comment> \<open>\<open>chunks k n xs\<close>: the first \<open>k\<close> consecutive pieces of \<open>n\<close> elements\<close>
  "chunks 0 n xs = []"
| "chunks (Suc k) n xs = take n xs # chunks k n (drop n xs)"

definition wordOfBytes :: "nat list \<Rightarrow> u32" where
  "wordOfBytes bs = foldl (\<lambda>w b. push_bit 8 w + of_nat b) 0 bs"

fun schedule :: "nat \<Rightarrow> u32 list \<Rightarrow> u32 list" where
  "schedule 0 w = w"
| "schedule (Suc k) w =
     (let i = length w
      in schedule k (w @ [smallSigma1 (w ! (i - 2)) + w ! (i - 7)
                          + smallSigma0 (w ! (i - 15)) + w ! (i - 16)]))"

definition sha256_round :: "hstate \<Rightarrow> u32 \<times> u32 \<Rightarrow> hstate" where
  "sha256_round s kw =
     (let t1 = hh s + bigSigma1 (he s) + Ch (he s) (hf s) (hg s) + fst kw + snd kw;
          t2 = bigSigma0 (ha s) + Maj (ha s) (hb s) (hc s)
      in \<lparr>ha = t1 + t2, hb = ha s, hc = hb s, hd' = hc s,
          he = hd' s + t1, hf = he s, hg = hf s, hh = hg s\<rparr>)"

definition sha256_block :: "hstate \<Rightarrow> nat list \<Rightarrow> hstate" where
  "sha256_block s block =
     (let w = schedule 48 (map wordOfBytes (chunks 16 4 block));
          t = foldl sha256_round s (zip sha256_K w)
      in \<lparr>ha = ha s + ha t, hb = hb s + hb t, hc = hc s + hc t, hd' = hd' s + hd' t,
          he = he s + he t, hf = hf s + hf t, hg = hg s + hg t, hh = hh s + hh t\<rparr>)"

definition hexDigit :: "nat \<Rightarrow> char" where
  "hexDigit n = ''0123456789abcdef'' ! n"

definition hex32 :: "u32 \<Rightarrow> string" where
  "hex32 w = map (\<lambda>i. hexDigit (unat (drop_bit (4 * (7 - i)) w AND 15))) [0..<8]"

definition sha256_hex :: "string \<Rightarrow> string" where
  "sha256_hex msg =
     (let bytes = sha256_pad msg;
          s = foldl sha256_block sha256_H0 (chunks (length bytes div 64) 64 bytes)
      in concat (map hex32 [ha s, hb s, hc s, hd' s, he s, hf s, hg s, hh s]))"

text \<open>
  A part is a string or a number (\<open>questionIndex\<close>). \<open>String(part || '')\<close> turns a falsy
  part, the number 0 among them, into the empty string.
\<close>

datatype part = PStr string | PNum nat

fun showNat :: "nat \<Rightarrow> string" where
  "showNat n =
     (if n < 10 then [''0123456789'' ! n]
      else showNat (n div 10) @ [''0123456789'' ! (n mod 10)])"

fun partText :: "part \<Rightarrow> string" where
  "partText (PStr s) = s"
| "partText (PNum n) = (if n = 0 then [] else showNat n)"

definition stableIdInput :: "part list \<Rightarrow> string" where
  \<comment> \<open>what the loop of \<open>stableId\<close> has fed to the hash\<close>
  "stableIdInput parts = concat (map (\<lambda>p. partText p @ ''|'') parts)"

definition stableId :: "part list \<Rightarrow> string" where
  "stableId parts = take 24 (sha256_hex (stableIdInput parts))"


section \<open>The markdown question parser\<close>

datatype nature = ChooseOne | ChooseMany

record question =
  qid :: string
  question :: string
  answer :: "string option"
  explanation :: "string option"
  hint :: "string option"
  correctAnswer :: "string list"
  options :: "string list"
  nature :: nature
  attachments :: "attachment list"

record block =
  heading :: string
  body :: "string list"

text \<open>\<open>x || null\<close> on a string: the empty string is falsy.\<close>

definition orNull :: "string \<Rightarrow> string option" where
  "orNull s = (if s = [] then None else Some s)"

text \<open>
  The option pattern \<open>/^\s*[-*+]\s*\[( |x|X)\]\s*(.+)$/\<close>. The two leading \<open>\s*\<close>
  can only stop at the character that must follow them. The last \<open>\s*\<close> is greedy
  and gives characters back, one at a time, until \<open>(.+)$\<close> matches what is left: a
  non-empty rest without a line terminator. \<open>optionTail r j\<close> tries \<open>j\<close> white
  characters first, then fewer.
\<close>

fun optionTail :: "string \<Rightarrow> nat \<Rightarrow> string option" where
  "optionTail r 0 =
     (if r \<noteq> [] \<and> list_all (\<lambda>c. \<not> isLineTerminator c) r then Some r else None)"
| "optionTail r (Suc j) =
     (let g = drop (Suc j) r
      in if g \<noteq> [] \<and> list_all (\<lambda>c. \<not> isLineTerminator c) g then Some g
         else optionTail r j)"

definition optionMatch :: "string \<Rightarrow> (char \<times> string) option" where
  \<comment> \<open>the two groups of a match: the checkbox mark and the text\<close>
  "optionMatch line =
     (case dropWhile isSpace line of
        [] \<Rightarrow> None
      | m # r1 \<Rightarrow>
          if m = CHR ''-'' \<or> m = CHR ''*'' \<or> m = CHR ''+'' then
            (case dropWhile isSpace r1 of
               b # c # e # r2 \<Rightarrow>
                 if b = CHR ''['' \<and> (c = CHR '' '' \<or> c = CHR ''x'' \<or> c = CHR ''X'') \<and> e = CHR '']''
                 then (case optionTail r2 (length (takeWhile isSpace r2)) of
                         None \<Rightarrow> None
                       | Some g \<Rightarrow> Some (c, g))
                 else None
             | _ \<Rightarrow> None)
          else None)"

text \<open>
  Inline images, \<open>line.matchAll(/!\[[^\]]*]\(([^)]+)\)/g)\<close>: \<open>matchImageAt\<close> matches at
  the head of a string and gives the reference and what follows the match;
  \<open>imageRefs\<close> scans on from the end of a match, or one character further on after a
  failure.
\<close>

definition matchImageAt :: "string \<Rightarrow> (string \<times> string) option" where
  "matchImageAt s =
     (case s of
        a # b # r \<Rightarrow>
          if a = CHR ''!'' \<and> b = CHR ''['' then
            (case dropWhile (\<lambda>c. c \<noteq> CHR '']'') r of
               e # f # r2 \<Rightarrow>
                 if f = CHR ''('' then
                   (let ref = takeWhile (\<lambda>c. c \<noteq> CHR '')'') r2;
                        r3 = dropWhile (\<lambda>c. c \<noteq> CHR '')'') r2
                    in if ref \<noteq> [] \<and> r3 \<noteq> [] then Some (ref, tl r3) else None)
                 else None
             | _ \<Rightarrow> None)
          else None
      | _ \<Rightarrow> None)"

lemma matchImageAt_shorter:
  "matchImageAt s = Some (ref, rest) \<Longrightarrow> length rest < length s"
proof -
  assume m: "matchImageAt s = Some (ref, rest)"
  then obtain a b r where s: "s = a # b # r"
    by (cases s rule: list.exhaust[case_product list.exhaust, of _ "tl s"])
       (auto simp: matchImageAt_def split: list.splits)
  from m s obtain e f r2 where d: "dropWhile (\<lambda>c. c \<noteq> CHR '']'') r = e # f # r2"
    by (auto simp: matchImageAt_def split: list.splits if_splits)
  from m s d have rest: "rest = tl (dropWhile (\<lambda>c. c \<noteq> CHR '')'') r2)"
    by (auto simp: matchImageAt_def Let_def split: if_splits)
  have "length (dropWhile (\<lambda>c. c \<noteq> CHR '']'') r) \<le> length r"
    by (rule length_dropWhile_le)
  with d have "length r2 < length r" by simp
  moreover have "length (dropWhile (\<lambda>c. c \<noteq> CHR '')'') r2) \<le> length r2"
    by (rule length_dropWhile_le)
  ultimately show ?thesis using s rest by simp
qed

function imageRefs :: "string \<Rightarrow> string list" where
  "imageRefs [] = []"
| "imageRefs (c # cs) =
     (case matchImageAt (c # cs) of
        Some (ref, rest) \<Rightarrow> ref # imageRefs rest
      | None \<Rightarrow> imageRefs cs)"
  by pat_completeness auto
termination
  by (relation "measure length") (auto dest: matchImageAt_shorter)

text \<open>
  \<open>stripQuestionNumber\<close>. Its pattern is \<open>^(?:L*\s*)?\d+\.?\s*(.*)$\<close>, where the class
  \<open>L\<close> holds the ASCII letters, the code units U+00C0 to U+00FF, \<open>?\<close>, the inverted
  question mark U+00BF, the inverted exclamation mark U+00A1 and the apostrophe. Each
  class of the prefix is disjoint from the one that must follow, so the greedy reading
  is the only one; the match fails when the rest holds a line terminator, and an empty
  rest is falsy: in both cases the trimmed text comes back.
\<close>

definition isLabelChar :: "char \<Rightarrow> bool" where
  "isLabelChar c =
     (isUpper c \<or> isLower c \<or> 192 \<le> (of_char c :: nat)
      \<or> c = CHR ''?'' \<or> c = CHR 0xBF \<or> c = CHR 0xA1 \<or> c = CHR 0x27)"

definition stripQuestionNumber :: "string \<Rightarrow> string" where
  "stripQuestionNumber text =
     (let r1 = dropWhile isSpace (dropWhile isLabelChar text);
          digits = takeWhile isDigit r1;
          r2 = dropWhile isDigit r1;
          r3 = (case r2 of [] \<Rightarrow> [] | c # cs \<Rightarrow> if c = CHR ''.'' then cs else r2);
          rest = dropWhile isSpace r3
      in if digits \<noteq> [] \<and> list_all (\<lambda>c. \<not> isLineTerminator c) rest \<and> rest \<noteq> []
         then trim rest else trim text)"

text \<open>\<open>/^hint[:\-]?\s*/i\<close>: the test, and the replacement by the empty string.\<close>

definition isHint :: "string \<Rightarrow> bool" where
  "isHint s = (toLowerCase (take 4 s) = ''hint'')"

definition stripHint :: "string \<Rightarrow> string" where
  "stripHint s =
     (if isHint s then
        (let r = drop 4 s;
             r' = (case r of [] \<Rightarrow> [] | c # cs \<Rightarrow> if c = CHR '':'' \<or> c = CHR ''-'' then cs else r)
         in dropWhile isSpace r')
      else s)"

text \<open>The loop of \<open>parseQuestionBlock\<close> over the body, one line a step.\<close>

record block_state =
  questionLines :: "string list"
  trailingLines :: "string list"
  bs_options :: "string list"
  bs_correctAnswer :: "string list"
  bs_attachments :: "attachment list"
  insideOptions :: bool
  insideCode :: bool

definition newAttachment :: "string \<Rightarrow> nat \<Rightarrow> string \<Rightarrow> attachment" where
  "newAttachment quizId questionIndex ref =
     \<lparr>att_id = stableId [PStr ''attachment'', PStr quizId, PNum questionIndex, PStr ref],
      url = ref, type = ''question''\<rparr>"

definition blockStep :: "string \<Rightarrow> nat \<Rightarrow> block_state \<Rightarrow> string \<Rightarrow> block_state" where
  "blockStep quizId questionIndex s line =
     (let s1 = (if startsWith (trim line) ''```'' then s\<lparr>insideCode := \<not> insideCode s\<rparr> else s);
          s2 = s1\<lparr>bs_attachments :=
                    bs_attachments s1 @ map (newAttachment quizId questionIndex) (imageRefs line)\<rparr>
      in case (if insideCode s2 then None else optionMatch line) of
           Some (mark, rest) \<Rightarrow>
             (let text = trim rest
              in s2\<lparr>insideOptions := True,
                    bs_options := bs_options s2 @ [text],
                    bs_correctAnswer :=
                      (if toLowerCase [mark] = ''x'' then bs_correctAnswer s2 @ [text]
                       else bs_correctAnswer s2)\<rparr>)
         | None \<Rightarrow>
             if \<not> insideOptions s2 then s2\<lparr>questionLines := questionLines s2 @ [line]\<rparr>
             else s2\<lparr>trailingLines := trailingLines s2 @ [line]\<rparr>)"

definition blockInit :: block_state where
  "blockInit = \<lparr>questionLines = [], trailingLines = [], bs_options = [], bs_correctAnswer = [],
                bs_attachments = [], insideOptions = False, insideCode = False\<rparr>"

definition hintLinesOf :: "string list \<Rightarrow> string list" where
  "hintLinesOf trailing =
     map stripHint (filter isHint (filter (\<lambda>t. t \<noteq> []) (map trim trailing)))"

definition explanationLinesOf :: "string list \<Rightarrow> string list" where
  "explanationLinesOf trailing =
     filter (\<lambda>t. \<not> isHint t) (filter (\<lambda>t. t \<noteq> []) (map trim trailing))"

definition parseQuestionBlock :: "block \<Rightarrow> string \<Rightarrow> nat \<Rightarrow> question" where
  "parseQuestionBlock blk quizId questionIndex =
     (let baseQuestion = stripQuestionNumber (heading blk);
          s = foldl (blockStep quizId questionIndex) blockInit (body blk);
          extraQuestionText = trim (joinWith [CHR 0x0A] (questionLines s));
          questionTextParts =
            (if extraQuestionText \<noteq> [] then [baseQuestion, extraQuestionText] else [baseQuestion])
      in \<lparr>qid = stableId [PStr ''question'', PStr quizId, PNum questionIndex, PStr (heading blk)],
          question = trim (joinWith [CHR 0x0A] questionTextParts),
          answer = orNull (joinWith ''; '' (bs_correctAnswer s)),
          explanation = orNull (trim (joinWith [CHR 0x0A] (explanationLinesOf (trailingLines s)))),
          hint = orNull (trim (joinWith [CHR 0x0A] (hintLinesOf (trailingLines s)))),
          correctAnswer = bs_correctAnswer s,
          options = bs_options s,
          nature = (if length (bs_correctAnswer s) > 1 then ChooseMany else ChooseOne),
          attachments = bs_attachments s\<rparr>)"

text \<open>\<open>content.split(/\r?\n/)\<close>: a line ends at LF or at CR LF; a lone CR stays in its line.\<close>

fun splitLines :: "string \<Rightarrow> string list" where
  "splitLines [] = [[]]"
| "splitLines [c] = (if c = CHR 0x0A then [[], []] else [[c]])"
| "splitLines (c # d # cs) =
     (if c = CHR 0x0A then [] # splitLines (d # cs)
      else if c = CHR 0x0D \<and> d = CHR 0x0A then [] # splitLines cs
      else (case splitLines (d # cs) of
              [] \<Rightarrow> [[c]]
            | seg # segs \<Rightarrow> (c # seg) # segs))"

text \<open>\<open>line.replace(/^##\s*/, '')\<close> and \<open>line.replace(/^####\s*/, '')\<close>.\<close>

definition stripHashes :: "string \<Rightarrow> string \<Rightarrow> string" where
  "stripHashes hashes line =
     (if startsWith line hashes then dropWhile isSpace (drop (length hashes) line) else line)"

text \<open>
  \<open>s.replace(/C+/g, r)\<close> for a character class \<open>C\<close>: every maximal run becomes one
  \<open>r\<close>. \<open>collapseSpaces\<close> is \<open>s.replace(/\s+/g, ' ')\<close>.
\<close>

function collapseRuns :: "(char \<Rightarrow> bool) \<Rightarrow> char \<Rightarrow> string \<Rightarrow> string" where
  "collapseRuns inClass r [] = []"
| "collapseRuns inClass r (c # cs) =
     (if inClass c then r # collapseRuns inClass r (dropWhile inClass cs)
      else c # collapseRuns inClass r cs)"
  by pat_completeness auto
termination
  by (relation "measure (\<lambda>(inClass, r, s). length s)")
     (auto simp: length_dropWhile_le less_Suc_eq_le)

definition collapseSpaces :: "string \<Rightarrow> string" where
  "collapseSpaces s = collapseRuns isSpace CHR '' '' s"

text \<open>\<open>path.basename(p)\<close> and \<open>path.basename(p, ext)\<close> of the runtime (POSIX).\<close>

definition basename :: "string \<Rightarrow> string" where
  "basename p = last (splitOn CHR ''/'' (rev (dropWhile (\<lambda>c. c = CHR ''/'') (rev p))))"

definition basenameExt :: "string \<Rightarrow> string \<Rightarrow> string" where
  "basenameExt p ext =
     (let b = basename p
      in if ext = [] \<or> length p < length ext then b
         else if p = ext then []
         else if endsWith b ext \<and> b \<noteq> ext then take (length b - length ext) b
         else b)"

text \<open>
  \<open>deriveLanguageFromFilename\<close>: the leftmost match of
  \<open>/-quiz[-.]([a-z]{2}(?:-[A-Za-z]{2})?)/i\<close> in the base name, else \<open>en\<close>.
\<close>

definition isLetter :: "char \<Rightarrow> bool" where
  "isLetter c = (isUpper c \<or> isLower c)"

definition languageAt :: "string \<Rightarrow> string option" where
  "languageAt s =
     (if toLowerCase (take 5 s) = ''-quiz'' then
        (case drop 5 s of
           d # a # b # r \<Rightarrow>
             if (d = CHR ''-'' \<or> d = CHR ''.'') \<and> isLetter a \<and> isLetter b then
               (case r of
                  e # c1 # c2 # _ \<Rightarrow>
                    if e = CHR ''-'' \<and> isLetter c1 \<and> isLetter c2 then Some [a, b, e, c1, c2]
                    else Some [a, b]
                | _ \<Rightarrow> Some [a, b])
             else None
         | _ \<Rightarrow> None)
      else None)"

fun firstMatch :: "(string \<Rightarrow> 'a option) \<Rightarrow> string \<Rightarrow> 'a option" where
  "firstMatch m [] = m []"
| "firstMatch m (c # cs) = (case m (c # cs) of Some r \<Rightarrow> Some r | None \<Rightarrow> firstMatch m cs)"

definition deriveLanguageFromFilename :: "string \<Rightarrow> string" where
  "deriveLanguageFromFilename filePath =
     (case firstMatch languageAt (basename filePath) of Some l \<Rightarrow> l | None \<Rightarrow> ''en'')"

definition capitalize :: "string \<Rightarrow> string" where
  \<comment> \<open>\<open>part.charAt(0).toUpperCase() + part.slice(1)\<close>\<close>
  "capitalize p = (case p of [] \<Rightarrow> [] | c # cs \<Rightarrow> upperChar c # cs)"

definition buildTitleFromPath :: "string \<Rightarrow> string" where
  "buildTitleFromPath sourcePath =
     (let segments = splitOn CHR ''/'' sourcePath;
          folder = (case segments of [] \<Rightarrow> ''Quiz'' | seg # _ \<Rightarrow> seg)
      in joinWith '' '' (map capitalize (splitBy (\<lambda>c. c = CHR ''-'' \<or> c = CHR ''_'') folder)))"

text \<open>The line loop of \<open>parseQuizMarkdown\<close>. A title is falsy when absent or empty.\<close>

record doc_state =
  ds_title :: "string option"
  introLines :: "string list"
  questionBlocks :: "block list"
  currentQuestion :: "block option"
  inQuestions :: bool

definition truthy :: "string option \<Rightarrow> bool" where
  "truthy t = (case t of None \<Rightarrow> False | Some s \<Rightarrow> s \<noteq> [])"

definition titleOf :: "string \<Rightarrow> string" where
  "titleOf line = trim (stripHashes ''##'' line)"

definition docStep :: "doc_state \<Rightarrow> string \<Rightarrow> doc_state" where
  "docStep s line =
     (if \<not> truthy (ds_title s) \<and> startsWith line ''## '' then s\<lparr>ds_title := Some (titleOf line)\<rparr>
      else if startsWith line ''#### '' then
        s\<lparr>inQuestions := True,
          questionBlocks :=
            (case currentQuestion s of
               None \<Rightarrow> questionBlocks s
             | Some b \<Rightarrow> questionBlocks s @ [b]),
          currentQuestion := Some \<lparr>heading = trim (stripHashes ''####'' line), body = []\<rparr>\<rparr>
      else if \<not> inQuestions s then s\<lparr>introLines := introLines s @ [line]\<rparr>
      else (case currentQuestion s of
              None \<Rightarrow> s
            | Some b \<Rightarrow> s\<lparr>currentQuestion := Some (b\<lparr>body := body b @ [line]\<rparr>)\<rparr>))"

definition docInit :: doc_state where
  "docInit = \<lparr>ds_title = None, introLines = [], questionBlocks = [], currentQuestion = None,
              inQuestions = False\<rparr>"

text \<open>
  \<open>questionBlocks.map((block, index) => ...)\<close>: the callback parses the block and pushes
  onto \<open>warnings\<close> (\<open>pushWarnings\<close>, its two \<open>if\<close>s); the warnings so far are
  threaded through.
\<close>

definition pushWarnings :: "nat \<Rightarrow> question \<Rightarrow> string list \<Rightarrow> string list" where
  "pushWarnings index parsedQuestion warnings =
     (let w1 = (if correctAnswer parsedQuestion = []
                then warnings @ [''Question '' @ showNat (index + 1) @ '' has no marked correct answers'']
                else warnings)
      in if options parsedQuestion = []
         then w1 @ [''Question '' @ showNat (index + 1) @ '' has no options'']
         else w1)"

fun parseQuestions ::
  "string \<Rightarrow> nat \<Rightarrow> block list \<Rightarrow> string list \<Rightarrow> question list \<times> string list" where
  "parseQuestions quizId index [] warnings = ([], warnings)"
| "parseQuestions quizId index (blk # blks) warnings =
     (let parsedQuestion = parseQuestionBlock blk quizId index;
          rest = parseQuestions quizId (index + 1) blks (pushWarnings index parsedQuestion warnings)
      in (parsedQuestion # fst rest, snd rest))"

definition blocksOf :: "doc_state \<Rightarrow> block list" where
  \<comment> \<open>after the loop: \<open>if (currentQuestion) questionBlocks.push(currentQuestion)\<close>\<close>
  "blocksOf s =
     (case currentQuestion s of
        None \<Rightarrow> questionBlocks s
      | Some b \<Rightarrow> questionBlocks s @ [b])"

record quizz =
  quizz_id :: string
  title :: string
  description :: string
  createdById :: string
  questions :: "question list"

record meta =
  source :: string
  language :: string
  generatedAt :: string
  warnings :: "string list"

record parsed =
  quizz :: quizz
  meta :: meta

text \<open>\<open>now\<close> stands for \<open>new Date().toISOString()\<close>.\<close>

definition parseQuizMarkdown :: "string \<Rightarrow> string \<Rightarrow> string \<Rightarrow> string \<Rightarrow> parsed" where
  "parseQuizMarkdown now content sourcePath createdBy =
     (let s = foldl docStep docInit (splitLines content);
          blocks = blocksOf s;
          d = trim (collapseSpaces (joinWith '' '' (introLines s)));
          quizId = stableId [PStr ''quiz'', PStr sourcePath];
          qw = parseQuestions quizId 0 blocks []
      in \<lparr>quizz = \<lparr>quizz_id = quizId,
                    title = (if truthy (ds_title s) then the (ds_title s)
                             else buildTitleFromPath sourcePath),
                    description = (if d \<noteq> [] then d else ''Seeded from '' @ sourcePath),
                    createdById = createdBy,
                    questions = fst qw\<rparr>,
          meta = \<lparr>source = sourcePath,
                   language = deriveLanguageFromFilename sourcePath,
                   generatedAt = now,
                   warnings = snd qw\<rparr>\<rparr>)"

section \<open>The consolidator\<close>

definition KNOWN_LANGS :: "string list" where
  "KNOWN_LANGS = [''en'', ''fr'', ''es'', ''it'', ''ch'', ''de'', ''ua'', ''hi'', ''ptbr'', ''tr'',
                  ''pt'', ''ja'', ''vi'']"

text \<open>
  \<open>base.match(LANG_SUFFIX)\<close>, the pattern \<open>-(en|fr|...)$\<close> without regard to case, then
  \<open>match[1].toLowerCase()\<close>. At most one code of the list can end the name after a
  hyphen, so the order of the search does not matter.
\<close>

definition langSuffix :: "string \<Rightarrow> string option" where
  "langSuffix base = find (\<lambda>k. endsWith (toLowerCase base) (''-'' @ k)) KNOWN_LANGS"

definition inferLanguage :: "string \<Rightarrow> string \<Rightarrow> string" where
  \<comment> \<open>an absent \<open>meta.language\<close> is the empty string\<close>
  "inferLanguage metaLanguage filePath =
     (if metaLanguage \<noteq> [] \<and> List.member KNOWN_LANGS (toLowerCase (trim metaLanguage))
      then toLowerCase (trim metaLanguage)
      else (case langSuffix (basenameExt filePath ''.json'') of
              Some l \<Rightarrow> l
            | None \<Rightarrow> ''en''))"

definition replaceChar :: "char \<Rightarrow> string \<Rightarrow> string \<Rightarrow> string" where
  \<comment> \<open>\<open>s.replace(/c/g, rep)\<close> for one character\<close>
  "replaceChar c rep s = concat (map (\<lambda>x. if x = c then rep else [x]) s)"

definition isSlugChar :: "char \<Rightarrow> bool" where
  "isSlugChar c = (isLower c \<or> isDigit c)"

definition slugify :: "string \<Rightarrow> string" where
  "slugify input =
     (let s1 = toLowerCase input;
          s2 = replaceChar CHR ''+'' '' plus '' s1;
          s3 = replaceChar CHR ''#'' '' sharp '' s2;
          s4 = replaceChar CHR ''&'' '' and '' s3;
          s5 = collapseRuns (\<lambda>c. \<not> isSlugChar c) CHR ''-'' s4;
          s6 = rev (dropWhile (\<lambda>c. c = CHR ''-'') (rev (dropWhile (\<lambda>c. c = CHR ''-'') s5)))
      in collapseRuns (\<lambda>c. c = CHR ''-'') CHR ''-'' s6)"

record parsed_file =
  pf_file :: string
  pf_language :: string
  data :: parsed

text \<open>
  \<open>parsedFiles.sort((a, b) => a.language.localeCompare(b.language))\<close>: the sort is
  stable. The languages are codes of \<open>KNOWN_LANGS\<close>, lower-case ASCII letters, which
  \<open>localeCompare\<close> orders as the dictionary does.
\<close>

fun localeLe :: "string \<Rightarrow> string \<Rightarrow> bool" where
  "localeLe [] b = True"
| "localeLe (x # xs) [] = False"
| "localeLe (x # xs) (y # ys) =
     ((of_char x :: nat) < of_char y \<or> (x = y \<and> localeLe xs ys))"

fun insertByLanguage :: "parsed_file \<Rightarrow> parsed_file list \<Rightarrow> parsed_file list" where
  "insertByLanguage x [] = [x]"
| "insertByLanguage x (y # ys) =
     (if localeLe (pf_language x) (pf_language y) then x # y # ys
      else y # insertByLanguage x ys)"

definition sortByLanguage :: "parsed_file list \<Rightarrow> parsed_file list" where
  "sortByLanguage xs = foldr insertByLanguage xs []"

definition pickBase :: "parsed_file list \<Rightarrow> parsed_file option" where
  "pickBase parsedFiles =
     (case find (\<lambda>p. pf_language p = ''en'') parsedFiles of
        Some en \<Rightarrow> Some en
      | None \<Rightarrow> (case parsedFiles of [] \<Rightarrow> None | p # _ \<Rightarrow> Some p))"

record set_question = question +
  setId :: string
  quizzId :: string

record quiz_set =
  set_id :: string
  set_language :: string
  set_title :: string
  set_description :: string
  set_questions :: "set_question list"

record combined_quizz =
  cq_id :: string
  slug :: string
  cq_createdById :: string
  sets :: "quiz_set list"

record combined_meta =
  languages :: "string list"
  sources :: "string list"
  cm_generatedAt :: string
  cm_warnings :: "string list"

record combined =
  cquizz :: combined_quizz
  cmeta :: combined_meta

definition restamp :: "string \<Rightarrow> string \<Rightarrow> string \<Rightarrow> string \<Rightarrow> string \<Rightarrow> question \<Rightarrow> set_question" where
  \<comment> \<open>the object literal \<open>{...q, setId, quizzId, attachments, explanation, hint}\<close>\<close>
  "restamp cwd relDir root sid qzid q =
     question.extend
       (q\<lparr>attachments := normalizeAttachments cwd (attachments q) relDir root\<rparr>)
       (set_question.fields sid qzid)"

definition buildSet :: "string \<Rightarrow> string \<Rightarrow> string \<Rightarrow> string \<Rightarrow> parsed_file \<Rightarrow> quiz_set" where
  "buildSet cwd relDir root qzid entry =
     (let sid = qzid @ ''-'' @ pf_language entry
      in \<lparr>set_id = sid,
          set_language = pf_language entry,
          set_title = title (quizz (data entry)),
          set_description = description (quizz (data entry)),
          set_questions = map (restamp cwd relDir root sid qzid) (questions (quizz (data entry)))\<rparr>)"

text \<open>
  \<open>buildCombinedPayload\<close>. \<open>files\<close> pairs each path with the document read from it,
  \<open>None\<close> when reading or \<open>JSON.parse\<close> throws, which rejects the whole directory.
  \<open>uuid\<close> stands for \<open>crypto.randomUUID()\<close>, \<open>now\<close> for the time stamp, \<open>relDir\<close> for
  \<open>path.relative(root, dir)\<close>.
\<close>

datatype error = ReadFailed string

fun readAll :: "(string \<times> parsed option) list \<Rightarrow> error + parsed_file list" where
  "readAll [] = Inr []"
| "readAll ((f, None) # rest) = Inl (ReadFailed f)"
| "readAll ((f, Some json) # rest) =
     (case readAll rest of
        Inl e \<Rightarrow> Inl e
      | Inr ps \<Rightarrow>
          Inr (\<lparr>pf_file = f, pf_language = inferLanguage (language (meta json)) f, data = json\<rparr> # ps))"

definition DEFAULT_CREATOR :: string where
  "DEFAULT_CREATOR = ''cmiz68drf00004eqsc3izonqy''"

definition combine ::
  "string \<Rightarrow> string \<Rightarrow> string \<Rightarrow> string \<Rightarrow> string \<Rightarrow> string \<Rightarrow> parsed_file list \<Rightarrow> combined" where
  "combine cwd uuid now relDir dir root unsorted =
     (let parsedFiles = sortByLanguage unsorted;
          base = pickBase parsedFiles;
          baseId = (case base of None \<Rightarrow> [] | Some b \<Rightarrow> quizz_id (quizz (data b)));
          qzid = (if baseId \<noteq> [] then baseId else uuid);
          baseSlug = (case base of None \<Rightarrow> [] | Some b \<Rightarrow> slugify (title (quizz (data b))));
          baseCreator = (case base of None \<Rightarrow> [] | Some b \<Rightarrow> createdById (quizz (data b)))
      in \<lparr>cquizz =
            \<lparr>cq_id = qzid,
             slug = (if baseSlug \<noteq> [] then baseSlug else basename dir),
             cq_createdById = (if baseCreator \<noteq> [] then baseCreator else DEFAULT_CREATOR),
             sets = map (buildSet cwd relDir root qzid) parsedFiles\<rparr>,
          cmeta =
            \<lparr>languages = map pf_language parsedFiles,
             sources = filter (\<lambda>s. s \<noteq> []) (map (\<lambda>p. source (meta (data p))) parsedFiles),
             cm_generatedAt = now,
             cm_warnings =
               filter (\<lambda>w. w \<noteq> []) (concat (map (\<lambda>p. warnings (meta (data p))) parsedFiles))\<rparr>\<rparr>)"

definition buildCombinedPayload ::
  "string \<Rightarrow> string \<Rightarrow> string \<Rightarrow> string \<Rightarrow> string \<Rightarrow> (string \<times> parsed option) list \<Rightarrow> string
   \<Rightarrow> error + combined" where
  "buildCombinedPayload cwd uuid now relDir dir files root =
     (case readAll files of
        Inl e \<Rightarrow> Inl e
      | Inr unsorted \<Rightarrow> Inr (combine cwd uuid now relDir dir root unsorted))"

section \<open>The seeder\<close>

text \<open>
  \<open>normalizeList\<close> and \<open>normalizeAttachmentUrls\<close> of \<open>seeder.ts\<close>: the payload holds
  sets of questions or, without \<open>quizz.sets\<close>, the questions of one document. The
  rewritten payload comes back with the number of changes. \<open>relDir\<close> stands for
  \<open>path.relative(root, path.dirname(filePath))\<close>.
\<close>

fun seedNormalizeAttachments ::
  "string list \<Rightarrow> string \<Rightarrow> attachment list \<Rightarrow> attachment list \<times> nat" where
  "seedNormalizeAttachments relParts absRoot [] = ([], 0)"
| "seedNormalizeAttachments relParts absRoot (a # as) =
     (let r = seedNormalizeAttachment relParts absRoot a;
          rs = seedNormalizeAttachments relParts absRoot as
      in (fst r # fst rs, snd r + snd rs))"

fun normalizeList ::
  "string list \<Rightarrow> string \<Rightarrow> 'a question_scheme list \<Rightarrow> 'a question_scheme list \<times> nat" where
  "normalizeList relParts absRoot [] = ([], 0)"
| "normalizeList relParts absRoot (q # qs) =
     (let r = seedNormalizeAttachments relParts absRoot (attachments q);
          rs = normalizeList relParts absRoot qs
      in (q\<lparr>attachments := fst r\<rparr> # fst rs, snd r + snd rs))"

datatype payload = SetsPayload combined | QuestionsPayload parsed

fun normalizeSets :: "string list \<Rightarrow> string \<Rightarrow> quiz_set list \<Rightarrow> quiz_set list \<times> nat" where
  "normalizeSets relParts absRoot [] = ([], 0)"
| "normalizeSets relParts absRoot (s # ss) =
     (let r = normalizeList relParts absRoot (set_questions s);
          rs = normalizeSets relParts absRoot ss
      in (s\<lparr>set_questions := fst r\<rparr> # fst rs, snd r + snd rs))"

fun normalizeAttachmentUrls :: "string \<Rightarrow> payload \<Rightarrow> string \<Rightarrow> string \<Rightarrow> payload \<times> nat" where
  "normalizeAttachmentUrls cwd (SetsPayload c) relDir root =
     (let r = normalizeSets (relPartsOf relDir) (path_resolve cwd root) (sets (cquizz c))
      in (SetsPayload (c\<lparr>cquizz := (cquizz c)\<lparr>sets := fst r\<rparr>\<rparr>), snd r))"
| "normalizeAttachmentUrls cwd (QuestionsPayload d) relDir root =
     (let r = normalizeList (relPartsOf relDir) (path_resolve cwd root) (questions (quizz d))
      in (QuestionsPayload (d\<lparr>quizz := (quizz d)\<lparr>questions := fst r\<rparr>\<rparr>), snd r))"

section \<open>The specification's reading, where it differs\<close>

text \<open>
  The title as the specification words it: the first title-level heading among the
  lines of the preamble, those before the first question-level heading, with its
  label stripped; without one, the title built from the path.
\<close>

definition spec_title :: "string \<Rightarrow> string \<Rightarrow> string" where
  "spec_title content sourcePath =
     (case find (\<lambda>l. startsWith l ''## '')
             (takeWhile (\<lambda>l. \<not> startsWith l ''#### '') (splitLines content)) of
        Some l \<Rightarrow> titleOf l
      | None \<Rightarrow> buildTitleFromPath sourcePath)"

text \<open>
  The url of a relative reference as the specification words it: a single leading
  \<open>./\<close> stripped from the trimmed reference, then the join of the root prefix, the
  directory's segments and the cleaned reference.
\<close>

definition spec_normalized_url :: "string list \<Rightarrow> string \<Rightarrow> string \<Rightarrow> string" where
  "spec_normalized_url relParts basePrefix raw =
     posix_join (basePrefix # relParts @ [stripPrefix ''./'' (trim raw)])"

section \<open>Properties\<close>

lemmas char_defs = isSpace_def isLineTerminator_def isDigit_def isUpper_def isLower_def
  isLatinUpper_def isLatinLower_def lowerChar_def upperChar_def toLowerCase_def toUpperCase_def
lemmas string_defs = trim_def trimStart_def trimEnd_def startsWith_def endsWith_def
  stripPrefix_def stripHashes_def

subsection \<open>Question blocks\<close>

lemma parseQuestions_fst:
  "fst (parseQuestions quizId i blks w) =
     map (\<lambda>(b, k). parseQuestionBlock b quizId k) (zip blks [i..<i + length blks])"
proof (induction blks arbitrary: i w)
  case Nil
  show ?case by simp
next
  case (Cons b blks)
  have "[i..<i + length (b # blks)] = i # [Suc i..<i + length (b # blks)]"
    by (rule upt_conv_Cons) simp
  then have "[i..<i + length (b # blks)] = i # [Suc i..<Suc i + length blks]"
    by simp
  with Cons [of "Suc i"] show ?case by (simp add: Let_def del: upt_Suc)
qed

lemma parseQuestions_snd:
  "snd (parseQuestions quizId i blks w) =
     w @ concat (map (\<lambda>(b, k). pushWarnings k (parseQuestionBlock b quizId k) [])
                     (zip blks [i..<i + length blks]))"
proof (induction blks arbitrary: i w)
  case Nil
  show ?case by simp
next
  case (Cons b blks)
  have "[i..<i + length (b # blks)] = i # [Suc i..<i + length (b # blks)]"
    by (rule upt_conv_Cons) simp
  then have u: "[i..<i + length (b # blks)] = i # [Suc i..<Suc i + length blks]"
    by simp
  have p: "pushWarnings i q w = w @ pushWarnings i q []" for q
    by (simp add: pushWarnings_def Let_def)
  show ?case
    using Cons [of "Suc i" "pushWarnings i (parseQuestionBlock b quizId i) w"] p u
    by (simp add: Let_def del: upt_Suc)
qed

lemma parseQuestions_members:
  "q \<in> set (fst (parseQuestions quizId i blks w)) \<Longrightarrow> \<exists>b j. q = parseQuestionBlock b quizId j"
  unfolding parseQuestions_fst by (auto dest: set_zip_leftD)

lemma nature_of_block:
  "nature (parseQuestionBlock b quizId j) =
     (if length (correctAnswer (parseQuestionBlock b quizId j)) > 1 then ChooseMany else ChooseOne)"
  by (simp add: parseQuestionBlock_def Let_def)

text \<open>What a step does to the attachments, whatever the state.\<close>

lemma blockStep_attachments:
  "bs_attachments (blockStep qz i s line) =
     bs_attachments s @ map (newAttachment qz i) (imageRefs line)"
  by (simp add: blockStep_def Let_def split: option.splits prod.splits)



lemma foldl_blockStep_attachments:
  "bs_attachments (foldl (blockStep qz i) s ls) =
     bs_attachments s @ map (newAttachment qz i) (concat (map imageRefs ls))"
  by (induction ls arbitrary: s) (simp_all add: blockStep_attachments)

lemma parseQuestionBlock_attachments:
  "attachments (parseQuestionBlock blk qz i) =
     map (newAttachment qz i) (concat (map imageRefs (body blk)))"
  by (simp add: parseQuestionBlock_def Let_def foldl_blockStep_attachments blockInit_def)

lemma blockStep_no_option:
  assumes "optionMatch line = None"
  shows "bs_options (blockStep qz i s line) = bs_options s"
    and "bs_correctAnswer (blockStep qz i s line) = bs_correctAnswer s"
  using assms by (simp_all add: blockStep_def Let_def)

lemma foldl_blockStep_no_option:
  assumes "list_all (\<lambda>l. optionMatch l = None) ls"
  shows "bs_options (foldl (blockStep qz i) s ls) = bs_options s
       \<and> bs_correctAnswer (foldl (blockStep qz i) s ls) = bs_correctAnswer s"
  using assms by (induction ls arbitrary: s) (simp_all add: blockStep_no_option)


lemma parse_questions:
  "questions (quizz (parseQuizMarkdown now content sourcePath createdBy)) =
     map (\<lambda>(b, k). parseQuestionBlock b (stableId [PStr ''quiz'', PStr sourcePath]) k)
         (zip (blocksOf (foldl docStep docInit (splitLines content)))
              [0..<length (blocksOf (foldl docStep docInit (splitLines content)))])"
  by (simp add: parseQuizMarkdown_def Let_def parseQuestions_fst)

lemma parse_warnings:
  "warnings (meta (parseQuizMarkdown now content sourcePath createdBy)) =
     concat (map (\<lambda>(b, k). pushWarnings k
                     (parseQuestionBlock b (stableId [PStr ''quiz'', PStr sourcePath]) k) [])
         (zip (blocksOf (foldl docStep docInit (splitLines content)))
              [0..<length (blocksOf (foldl docStep docInit (splitLines content)))]))"
  by (simp add: parseQuizMarkdown_def Let_def parseQuestions_snd)

subsection \<open>Nature, warnings, fences and the frame of normalisation\<close>

lemma blocks_pick_two:
  "blocksOf (foldl docStep docInit
      (splitLines ''#### 1. Pick two\<newline>- [x] a\<newline>- [X] b\<newline>- [ ] c'')) =
     [\<lparr>heading = ''1. Pick two'', body = [''- [x] a'', ''- [X] b'', ''- [ ] c'']\<rparr>]"
  by (simp add: docStep_def docInit_def blocksOf_def truthy_def string_defs isSpace_def)

lemma steps_pick_two:
  "foldl (blockStep qz i) blockInit [''- [x] a'', ''- [X] b'', ''- [ ] c''] =
     \<lparr>questionLines = [], trailingLines = [], bs_options = [''a'', ''b'', ''c''],
      bs_correctAnswer = [''a'', ''b''], bs_attachments = [], insideOptions = True,
      insideCode = False\<rparr>"
  by (simp add: blockStep_def blockInit_def optionMatch_def matchImageAt_def string_defs
        char_defs Let_def)

text \<open>
  C1. For every question record that \<open>parseQuizMarkdown\<close> produces, \<open>nature\<close> is
  \<open>ChooseMany\<close> exactly when \<open>correctAnswer\<close> has more than one element, and
  \<open>ChooseOne\<close> otherwise, also when nothing is marked.
\<close>

theorem nature_invariant:
  assumes "q \<in> set (questions (quizz (parseQuizMarkdown now content sourcePath createdBy)))"
  shows "(nature q = ChooseMany \<longleftrightarrow> length (correctAnswer q) > 1)
       \<and> (nature q = ChooseOne \<longleftrightarrow> length (correctAnswer q) \<le> 1)"
proof -
  from assms obtain b j quizId where "q = parseQuestionBlock b quizId j"
    by (auto simp: parseQuizMarkdown_def Let_def dest: parseQuestions_members)
  then show ?thesis using nature_of_block [of b quizId j] by (auto split: if_splits)
qed

theorem nature_invariant_witness:
  "(let q = parseQuestionBlock
              \<lparr>heading = ''1. Pick two'', body = [''- [x] a'', ''- [X] b'', ''- [ ] c'']\<rparr>
              (stableId [PStr ''quiz'', PStr ''python/python-quiz.md'']) 0
    in q \<in> set (questions (quizz (parseQuizMarkdown ''2024-01-01T00:00:00.000Z''
               ''#### 1. Pick two\<newline>- [x] a\<newline>- [X] b\<newline>- [ ] c''
               ''python/python-quiz.md'' ''seed-user'')))
       \<and> correctAnswer q = [''a'', ''b''] \<and> nature q = ChooseMany)"
proof -
  let ?q = "parseQuestionBlock
              \<lparr>heading = ''1. Pick two'', body = [''- [x] a'', ''- [X] b'', ''- [ ] c'']\<rparr>
              (stableId [PStr ''quiz'', PStr ''python/python-quiz.md'']) 0"
  let ?P = "parseQuizMarkdown ''2024-01-01T00:00:00.000Z''
               ''#### 1. Pick two\<newline>- [x] a\<newline>- [X] b\<newline>- [ ] c''
               ''python/python-quiz.md'' ''seed-user''"
  have mem: "?q \<in> set (questions (quizz ?P))"
    by (simp add: parse_questions blocks_pick_two del: foldl_Cons splitLines.simps)
  have ca: "correctAnswer ?q = [''a'', ''b'']"
    by (simp add: parseQuestionBlock_def Let_def steps_pick_two del: foldl_Cons)
  from nature_invariant [OF mem] ca have "nature ?q = ChooseMany" by simp
  with mem ca show ?thesis by (simp add: Let_def)
qed

lemma steps_no_checkbox:
  "foldl (blockStep qz i) blockInit [''Explain.'', ''''] =
     \<lparr>questionLines = [''Explain.'', ''''], trailingLines = [], bs_options = [],
      bs_correctAnswer = [], bs_attachments = [], insideOptions = False,
      insideCode = False\<rparr>"
  by (simp add: blockStep_def blockInit_def optionMatch_def matchImageAt_def string_defs
        char_defs Let_def)

lemma blocks_no_checkbox:
  "blocksOf (foldl docStep docInit (splitLines ''#### Q1. Why?\<newline>Explain.\<newline>'')) =
     [\<lparr>heading = ''Q1. Why?'', body = [''Explain.'', '''']\<rparr>]"
  by (simp add: docStep_def docInit_def blocksOf_def truthy_def string_defs isSpace_def)

lemma pushWarnings_Nil:
  "pushWarnings k q [] =
     (if correctAnswer q = []
      then [''Question '' @ showNat (k + 1) @ '' has no marked correct answers''] else [])
     @ (if options q = [] then [''Question '' @ showNat (k + 1) @ '' has no options''] else [])"
  by (simp add: pushWarnings_def Let_def)

lemma no_option_lines:
  assumes "list_all (\<lambda>l. optionMatch l = None) (body b)"
  shows "options (parseQuestionBlock b qz k) = [] \<and> correctAnswer (parseQuestionBlock b qz k) = []"
  using foldl_blockStep_no_option [OF assms, of qz k blockInit]
  by (simp add: parseQuestionBlock_def Let_def blockInit_def)

text \<open>
  C8. A question without options gets the warning for missing options, and one without
  marked answers the warning for missing marked answers; every block still yields its
  question record. A block none of whose lines is an option line has no options, no
  correct answers, and exactly these two warnings.
\<close>

theorem missing_parts_warn:
  assumes "blks = blocksOf (foldl docStep docInit (splitLines content))"
    and "qz = stableId [PStr ''quiz'', PStr sourcePath]"
    and "P = parseQuizMarkdown now content sourcePath createdBy"
  shows "questions (quizz P) = map (\<lambda>(b, k). parseQuestionBlock b qz k) (zip blks [0..<length blks])
       \<and> warnings (meta P) =
           concat (map (\<lambda>(b, k). pushWarnings k (parseQuestionBlock b qz k) [])
                       (zip blks [0..<length blks]))
       \<and> pushWarnings k q [] =
           (if correctAnswer q = []
            then [''Question '' @ showNat (k + 1) @ '' has no marked correct answers''] else [])
           @ (if options q = []
              then [''Question '' @ showNat (k + 1) @ '' has no options''] else [])
       \<and> (list_all (\<lambda>l. optionMatch l = None) (body b) \<longrightarrow>
           options (parseQuestionBlock b qz k) = []
           \<and> correctAnswer (parseQuestionBlock b qz k) = []
           \<and> pushWarnings k (parseQuestionBlock b qz k) [] =
               [''Question '' @ showNat (k + 1) @ '' has no marked correct answers'',
                ''Question '' @ showNat (k + 1) @ '' has no options''])"
proof (intro conjI impI)
  show "questions (quizz P) = map (\<lambda>(b, k). parseQuestionBlock b qz k) (zip blks [0..<length blks])"
    unfolding assms by (rule parse_questions)
  show "warnings (meta P) =
           concat (map (\<lambda>(b, k). pushWarnings k (parseQuestionBlock b qz k) [])
                       (zip blks [0..<length blks]))"
    unfolding assms by (rule parse_warnings)
  show "pushWarnings k q [] =
           (if correctAnswer q = []
            then [''Question '' @ showNat (k + 1) @ '' has no marked correct answers''] else [])
           @ (if options q = []
              then [''Question '' @ showNat (k + 1) @ '' has no options''] else [])"
    by (rule pushWarnings_Nil)
next
  assume a: "list_all (\<lambda>l. optionMatch l = None) (body b)"
  from no_option_lines [OF a]
  show "options (parseQuestionBlock b qz k) = []"
    and "correctAnswer (parseQuestionBlock b qz k) = []"
    and "pushWarnings k (parseQuestionBlock b qz k) [] =
               [''Question '' @ showNat (k + 1) @ '' has no marked correct answers'',
                ''Question '' @ showNat (k + 1) @ '' has no options'']"
    by (simp_all add: pushWarnings_Nil del: showNat.simps)
qed

theorem missing_parts_warn_witness:
  "(let P = parseQuizMarkdown ''2024-01-01T00:00:00.000Z'' ''#### Q1. Why?\<newline>Explain.\<newline>''
              ''python/python-quiz.md'' ''seed-user'';
        q = parseQuestionBlock \<lparr>heading = ''Q1. Why?'', body = [''Explain.'', '''']\<rparr>
              (stableId [PStr ''quiz'', PStr ''python/python-quiz.md'']) 0
    in questions (quizz P) = [q] \<and> options q = [] \<and> correctAnswer q = []
       \<and> warnings (meta P) =
           [''Question 1 has no marked correct answers'', ''Question 1 has no options''])"
proof -
  let ?b = "\<lparr>heading = ''Q1. Why?'', body = [''Explain.'', '''']\<rparr>"
  have none: "list_all (\<lambda>l. optionMatch l = None) (body ?b)"
    by (simp add: optionMatch_def isSpace_def)
  from missing_parts_warn [OF refl refl refl, where now = "''2024-01-01T00:00:00.000Z''"
      and content = "''#### Q1. Why?\<newline>Explain.\<newline>''"
      and sourcePath = "''python/python-quiz.md''" and createdBy = "''seed-user''"
      and k = 0 and b = ?b] none
  show ?thesis
    by (simp add: blocks_no_checkbox Let_def del: foldl_Cons splitLines.simps)
qed




lemma normalizeAttachment_frame:
  "normalizeAttachment rp bp a = a\<lparr>url := url (normalizeAttachment rp bp a)\<rparr>"
  by (simp add: normalizeAttachment_def Let_def)

lemma normalizeAttachment_id [simp]: "att_id (normalizeAttachment rp bp a) = att_id a"
  by (simp add: normalizeAttachment_def Let_def)

lemma normalizeAttachment_type [simp]: "type (normalizeAttachment rp bp a) = type a"
  by (simp add: normalizeAttachment_def Let_def)

lemma normalizeAttachments_ids:
  "map att_id (normalizeAttachments cwd atts relDir root) = map att_id atts"
  by (simp add: normalizeAttachments_def Let_def comp_def)

lemma normalizeAttachments_types:
  "map type (normalizeAttachments cwd atts relDir root) = map type atts"
  by (simp add: normalizeAttachments_def Let_def comp_def)

text \<open>
  C6. Normalisation rewrites the url of an attachment and nothing else: the record
  that comes back is the one that went in with, at most, another url, so the
  identifiers and types of a list of attachments stay what they were, whatever the
  root. The identifier was fixed when the block was parsed, from the quiz id, the
  question index and the raw reference, which is also the url stored then.
\<close>

theorem normalization_frame:
  "normalizeAttachment relParts basePrefix att =
     att\<lparr>url := url (normalizeAttachment relParts basePrefix att)\<rparr>
   \<and> map att_id (normalizeAttachments cwd atts relDir root) = map att_id atts
   \<and> map type (normalizeAttachments cwd atts relDir root) = map type atts
   \<and> map att_id (normalizeAttachments cwd atts relDir root') =
       map att_id (normalizeAttachments cwd atts relDir root)
   \<and> map att_id (attachments (parseQuestionBlock blk qz i)) =
       map (\<lambda>ref. stableId [PStr ''attachment'', PStr qz, PNum i, PStr ref])
           (concat (map imageRefs (body blk)))
   \<and> map url (attachments (parseQuestionBlock blk qz i)) = concat (map imageRefs (body blk))"
  using normalizeAttachment_frame [of relParts basePrefix att]
  by (simp add: normalizeAttachments_ids normalizeAttachments_types
        parseQuestionBlock_attachments comp_def newAttachment_def)



lemmas path_defs = path_resolve_def normalizeString_def splitOn_def posix_join_def
  posix_normalize_def relPartsOf_def

theorem normalization_frame_witness:
  "(let a = \<lparr>att_id = ''a1'', url = ''./img/q1.png'', type = ''question''\<rparr>;
        r1 = normalizeAttachments ''/home/u'' [a] ''python'' ''/srv/a'';
        r2 = normalizeAttachments ''/home/u'' [a] ''python'' ''/srv/b''
    in map url r1 = [''/srv/a/python/img/q1.png''] \<and> map url r2 = [''/srv/b/python/img/q1.png'']
       \<and> map att_id r1 = [''a1''] \<and> map att_id r2 = [''a1'']
       \<and> map type r1 = [''question''] \<and> map type r2 = [''question''])"
proof -
  let ?a = "\<lparr>att_id = ''a1'', url = ''./img/q1.png'', type = ''question''\<rparr>"
  have u1: "map url (normalizeAttachments ''/home/u'' [?a] ''python'' ''/srv/a'') =
              [''/srv/a/python/img/q1.png'']"
    by code_simp
  have u2: "map url (normalizeAttachments ''/home/u'' [?a] ''python'' ''/srv/b'') =
              [''/srv/b/python/img/q1.png'']"
    by code_simp
  note f = normalization_frame [where cwd = "''/home/u''" and atts = "[?a]" and relDir = "''python''"
      and relParts = "[]" and basePrefix = "[]" and att = ?a
      and blk = "\<lparr>heading = [], body = []\<rparr>" and qz = "[]" and i = 0]
  from f [where root = "''/srv/a''" and root' = "''/srv/b''"]
       f [where root = "''/srv/b''" and root' = "''/srv/a''"] u1 u2
  show ?thesis by (simp add: Let_def)
qed

subsection \<open>The title\<close>

lemma docStep_title:
  "ds_title (docStep s l) =
     (if \<not> truthy (ds_title s) \<and> startsWith l ''## '' then Some (titleOf l) else ds_title s)"
  by (simp add: docStep_def split: option.splits)

lemma truthy_title_kept:
  "truthy (ds_title s) \<Longrightarrow> ds_title (foldl docStep s ls) = ds_title s"
  by (induction ls arbitrary: s) (simp_all add: docStep_title)

lemma foldl_docStep_truthy:
  "\<not> truthy (ds_title s) \<Longrightarrow>
   (case find (\<lambda>l. startsWith l ''## '' \<and> titleOf l \<noteq> []) ls of
      Some l \<Rightarrow> ds_title (foldl docStep s ls) = Some (titleOf l)
    | None \<Rightarrow> \<not> truthy (ds_title (foldl docStep s ls)))"
proof (induction ls arbitrary: s)
  case Nil
  then show ?case by simp
next
  case (Cons l ls)
  show ?case
  proof (cases "startsWith l ''## ''")
    case False
    with Cons.prems have "\<not> truthy (ds_title (docStep s l))" by (simp add: docStep_title)
    from Cons.IH [OF this] False show ?thesis by (simp split: option.splits)
  next
    case True
    show ?thesis
    proof (cases "titleOf l = []")
      case True
      with \<open>startsWith l ''## ''\<close> Cons.prems have "\<not> truthy (ds_title (docStep s l))"
        by (simp add: docStep_title truthy_def)
      from Cons.IH [OF this] True show ?thesis by (simp split: option.splits)
    next
      case False
      with \<open>startsWith l ''## ''\<close> Cons.prems
      have t: "ds_title (docStep s l) = Some (titleOf l)" "truthy (ds_title (docStep s l))"
        by (simp_all add: docStep_title truthy_def)
      from truthy_title_kept [OF t(2), of ls] t(1) False \<open>startsWith l ''## ''\<close>
      show ?thesis by simp
    qed
  qed
qed


lemma splitBy_nonempty: "splitBy isSep s \<noteq> []"
  by (induction s) (auto split: list.splits)

lemma parse_title:
  "title (quizz (parseQuizMarkdown now content sourcePath createdBy)) =
     (case find (\<lambda>l. startsWith l ''## '' \<and> titleOf l \<noteq> []) (splitLines content) of
        Some l \<Rightarrow> titleOf l
      | None \<Rightarrow> buildTitleFromPath sourcePath)"
proof -
  let ?s = "foldl docStep docInit (splitLines content)"
  have t: "title (quizz (parseQuizMarkdown now content sourcePath createdBy)) =
             (if truthy (ds_title ?s) then the (ds_title ?s) else buildTitleFromPath sourcePath)"
    by (simp add: parseQuizMarkdown_def Let_def)
  have n: "\<not> truthy (ds_title docInit)" by (simp add: docInit_def truthy_def)
  show ?thesis
  proof (cases "find (\<lambda>l. startsWith l ''## '' \<and> titleOf l \<noteq> []) (splitLines content)")
    case None
    with foldl_docStep_truthy [OF n, of "splitLines content"]
    have "\<not> truthy (ds_title ?s)" by simp
    with None t show ?thesis by simp
  next
    case (Some l)
    then have "titleOf l \<noteq> []" by (auto simp: find_Some_iff)
    moreover from Some foldl_docStep_truthy [OF n, of "splitLines content"]
    have "ds_title ?s = Some (titleOf l)" by simp
    ultimately show ?thesis using Some t by (simp add: truthy_def)
  qed
qed

text \<open>
  C7 (as amended). The title is the label-stripped text of the first line of the
  document that starts with \<open>## \<close> and has a non-empty text left, wherever it
  stands: no state keeps the search to the preamble. Without such a line the title
  comes from the first segment of the source path, split at \<open>-\<close> and \<open>_\<close>, each
  word capitalised, joined by spaces.
\<close>

theorem title_rule:
  "title (quizz (parseQuizMarkdown now content sourcePath createdBy)) =
     (case find (\<lambda>l. startsWith l ''## '' \<and> titleOf l \<noteq> []) (splitLines content) of
        Some l \<Rightarrow> titleOf l
      | None \<Rightarrow> buildTitleFromPath sourcePath)
   \<and> (startsWith l ''## '' \<longrightarrow> titleOf l = trim (drop 3 l))
   \<and> buildTitleFromPath sourcePath =
       joinWith '' '' (map capitalize
         (splitBy (\<lambda>c. c = CHR ''-'' \<or> c = CHR ''_'') (hd (splitOn CHR ''/'' sourcePath))))"
proof (intro conjI impI)
  show "title (quizz (parseQuizMarkdown now content sourcePath createdBy)) =
     (case find (\<lambda>l. startsWith l ''## '' \<and> titleOf l \<noteq> []) (splitLines content) of
        Some l \<Rightarrow> titleOf l
      | None \<Rightarrow> buildTitleFromPath sourcePath)"
    by (rule parse_title)
  show "buildTitleFromPath sourcePath =
       joinWith '' '' (map capitalize
         (splitBy (\<lambda>c. c = CHR ''-'' \<or> c = CHR ''_'') (hd (splitOn CHR ''/'' sourcePath))))"
    using splitBy_nonempty [of "\<lambda>c. c = CHR ''/''" sourcePath]
    by (simp add: buildTitleFromPath_def splitOn_def Let_def split: list.splits)
next
  assume "startsWith l ''## ''"
  then obtain r where l: "l = ''## '' @ r"
    by (metis append_take_drop_id length_Cons list.size(3) startsWith_def)
  have "trim (CHR '' '' # r) = trim r" by (simp add: trim_def trimStart_def isSpace_def)
  then show "titleOf l = trim (drop 3 l)"
    by (simp add: l titleOf_def stripHashes_def startsWith_def trim_def trimStart_def trimEnd_def
          isSpace_def)
qed


lemma title_from_path_example: "buildTitleFromPath ''machine-learning/ml-quiz.md'' = ''Machine Learning''"
  by code_simp

theorem title_rule_witness:
  "title (quizz (parseQuizMarkdown ''2024-01-01T00:00:00.000Z''
      ''Intro\<newline>## Python Quiz\<newline>#### 1. Q'' ''python/python-quiz.md'' ''seed-user'')) = ''Python Quiz''
   \<and> title (quizz (parseQuizMarkdown ''2024-01-01T00:00:00.000Z''
      ''#### 1. Q\<newline>- [x] yes'' ''machine-learning/ml-quiz.md'' ''seed-user'')) = ''Machine Learning''"
proof -
  have f1: "find (\<lambda>l. startsWith l ''## '' \<and> titleOf l \<noteq> [])
              (splitLines ''Intro\<newline>## Python Quiz\<newline>#### 1. Q'') = Some ''## Python Quiz''"
    by (simp add: titleOf_def string_defs isSpace_def)
  have t1: "titleOf ''## Python Quiz'' = ''Python Quiz''"
    by (simp add: titleOf_def string_defs isSpace_def)
  have f2: "find (\<lambda>l. startsWith l ''## '' \<and> titleOf l \<noteq> [])
              (splitLines ''#### 1. Q\<newline>- [x] yes'') = None"
    by (simp add: titleOf_def string_defs isSpace_def)
  from title_rule [where now = "''2024-01-01T00:00:00.000Z''"
        and content = "''Intro\<newline>## Python Quiz\<newline>#### 1. Q''"
        and sourcePath = "''python/python-quiz.md''" and createdBy = "''seed-user''" and l = "[]"]
       title_rule [where now = "''2024-01-01T00:00:00.000Z''"
        and content = "''#### 1. Q\<newline>- [x] yes''"
        and sourcePath = "''machine-learning/ml-quiz.md''" and createdBy = "''seed-user''" and l = "[]"]
  show ?thesis
    by (simp only: f1 f2 t1 title_from_path_example option.case)
qed

text \<open>
  The claim as stated fails on a title-level heading that comes after a question
  heading: the parser takes it as the title, where the claim has the title built
  from the path.
\<close>

theorem title_outside_preamble:
  "title (quizz (parseQuizMarkdown ''2024-01-01T00:00:00.000Z''
      ''#### Q1. What?\<newline>## Late Title\<newline>- [x] yes'' ''machine-learning/ml-quiz.md'' ''seed-user''))
     = ''Late Title''
   \<and> spec_title ''#### Q1. What?\<newline>## Late Title\<newline>- [x] yes'' ''machine-learning/ml-quiz.md''
     = ''Machine Learning''"
proof -
  have f: "find (\<lambda>l. startsWith l ''## '' \<and> titleOf l \<noteq> [])
              (splitLines ''#### Q1. What?\<newline>## Late Title\<newline>- [x] yes'') = Some ''## Late Title''"
    by (simp add: titleOf_def string_defs isSpace_def)
  have t: "titleOf ''## Late Title'' = ''Late Title''"
    by (simp add: titleOf_def string_defs isSpace_def)
  have s: "spec_title ''#### Q1. What?\<newline>## Late Title\<newline>- [x] yes'' ''machine-learning/ml-quiz.md''
             = buildTitleFromPath ''machine-learning/ml-quiz.md''"
    by (simp add: spec_title_def string_defs)
  show ?thesis
    by (simp only: parse_title f t s title_from_path_example option.case)
qed

subsection \<open>The attachment url normaliser\<close>

lemma trimEnd_prefix: "trimEnd s @ rev (takeWhile isSpace (rev s)) = s"
proof -
  have "rev (takeWhile isSpace (rev s) @ dropWhile isSpace (rev s)) = s" by simp
  then show ?thesis unfolding trimEnd_def by (simp only: rev_append)
qed

lemma trimEnd_hd:
  assumes "s \<noteq> []" and "\<not> isSpace (hd s)"
  shows "trimEnd s \<noteq> [] \<and> hd (trimEnd s) = hd s"
proof -
  have "dropWhile isSpace (rev s) \<noteq> []"
  proof
    assume "dropWhile isSpace (rev s) = []"
    then have "\<forall>x\<in>set (rev s). isSpace x" by simp
    with assms show False by (cases s) auto
  qed
  then have n: "trimEnd s \<noteq> []" by (simp add: trimEnd_def)
  with trimEnd_prefix [of s] have "hd (trimEnd s) = hd s" by (metis hd_append2)
  with n show ?thesis by simp
qed

lemma trimStart_hd: "trimStart s = [] \<or> \<not> isSpace (hd (trimStart s))"
  unfolding trimStart_def by (metis hd_dropWhile)

lemma trim_hd: "trim s = [] \<or> \<not> isSpace (hd (trim s))"
proof (cases "trimStart s = []")
  case True
  then show ?thesis by (simp add: trim_def trimEnd_def)
next
  case False
  with trimStart_hd [of s] have "\<not> isSpace (hd (trimStart s))" by simp
  from trimEnd_hd [OF False this] this show ?thesis by (simp add: trim_def)
qed

lemma trimEnd_idem: "trimEnd (trimEnd s) = trimEnd s"
  by (simp add: trimEnd_def)

lemma trim_idem: "trim (trim s) = trim s"
proof -
  have "trimStart (trim s) = trim s"
    using trim_hd [of s] unfolding trimStart_def by (auto simp: dropWhile_eq_self_iff)
  then show ?thesis unfolding trim_def [of "trim s"] by (simp add: trim_def trimEnd_idem)
qed

lemma trim_keeps_slash:
  assumes "startsWith s ''/''"
  shows "startsWith (trim s) ''/''"
proof -
  from assms obtain r where s: "s = CHR ''/'' # r" by (cases s) (auto simp: startsWith_def)
  then have t: "trimStart s = s" by (simp add: trimStart_def isSpace_def)
  from s have "s \<noteq> []" "\<not> isSpace (hd s)" by (simp_all add: isSpace_def)
  from trimEnd_hd [OF this] s have "trimEnd s \<noteq> []" "hd (trimEnd s) = CHR ''/''" by simp_all
  then show ?thesis unfolding trim_def t by (cases "trimEnd s") (auto simp: startsWith_def)
qed

lemma posix_normalize_absolute:
  assumes "startsWith p ''/''"
  shows "startsWith (posix_normalize p) ''/''"
proof -
  from assms obtain r where "p = CHR ''/'' # r" by (cases p) (auto simp: startsWith_def)
  then show ?thesis by (simp add: posix_normalize_def Let_def startsWith_def)
qed

lemma joinWith_hd: "x \<noteq> [] \<Longrightarrow> startsWith x ''/'' \<Longrightarrow> startsWith (joinWith sep (x # xs)) ''/''"
  by (cases xs; cases x) (auto simp: startsWith_def)

lemma posix_join_absolute:
  assumes "startsWith base ''/''"
  shows "startsWith (posix_join (base # rest)) ''/''"
proof -
  from assms have n: "base \<noteq> []" by (auto simp: startsWith_def)
  then have "filter (\<lambda>a. a \<noteq> []) (base # rest) = base # filter (\<lambda>a. a \<noteq> []) rest" by simp
  with n assms show ?thesis
    by (simp add: posix_join_def Let_def posix_normalize_absolute joinWith_hd)
qed

lemma path_resolve_absolute:
  assumes "startsWith cwd ''/''"
  shows "startsWith (path_resolve cwd root) ''/''"
proof -
  from assms obtain r where "cwd = CHR ''/'' # r" by (cases cwd) (auto simp: startsWith_def)
  then show ?thesis by (simp add: path_resolve_def Let_def startsWith_def)
qed


lemma isAbsoluteRef_slash: "startsWith t ''/'' \<Longrightarrow> isAbsoluteRef base t"
  by (simp add: isAbsoluteRef_def)

lemma normalizeAttachment_url:
  "url (normalizeAttachment rp base a) =
     (if isAbsoluteRef base (trim (url a)) then trim (url a)
      else posix_join (base # rp @ [stripPrefix ''/'' (stripPrefix ''./'' (trim (url a)))]))"
  by (simp add: normalizeAttachment_def Let_def)

lemma normalizeAttachment_absolute:
  "isAbsoluteRef base (trim (url b)) \<Longrightarrow>
   normalizeAttachment rp base b = (if trim (url b) = url b then b else b\<lparr>url := trim (url b)\<rparr>)"
  by (simp add: normalizeAttachment_def Let_def)

lemma seedNormalizeAttachment_url:
  "url (fst (seedNormalizeAttachment rp base a)) =
     (if trim (url a) = [] then url a
      else if isAbsoluteRef base (trim (url a)) then trim (url a)
      else posix_join (base # rp @
             [if startsWith (trim (url a)) ''./'' then drop 2 (trim (url a))
              else if startsWith (trim (url a)) ''/'' then drop 1 (trim (url a))
              else trim (url a)]))"
  by (simp add: seedNormalizeAttachment_def Let_def)

lemma seedNormalizeAttachment_absolute:
  "isAbsoluteRef base (trim (url b)) \<Longrightarrow> trim (url b) \<noteq> [] \<Longrightarrow>
   fst (seedNormalizeAttachment rp base b) =
     (if trim (url b) = url b then b else b\<lparr>url := trim (url b)\<rparr>)"
  by (simp add: seedNormalizeAttachment_def Let_def)

lemma seedNormalizeAttachment_blank:
  "trim (url b) = [] \<Longrightarrow> fst (seedNormalizeAttachment rp base b) = b"
  by (simp add: seedNormalizeAttachment_def Let_def)

lemma normalized_is_absolute:
  assumes "startsWith base ''/''"
  shows "isAbsoluteRef base (trim (url (normalizeAttachment rp base a)))"
proof (cases "isAbsoluteRef base (trim (url a))")
  case True
  then show ?thesis by (simp add: normalizeAttachment_url trim_idem)
next
  case False
  then show ?thesis
    by (simp add: normalizeAttachment_url isAbsoluteRef_slash trim_keeps_slash
          posix_join_absolute [OF assms])
qed

lemma seed_normalized_is_absolute:
  assumes "startsWith base ''/''" and "trim (url a) \<noteq> []"
  shows "isAbsoluteRef base (trim (url (fst (seedNormalizeAttachment rp base a))))
       \<and> trim (url (fst (seedNormalizeAttachment rp base a))) \<noteq> []"
proof (cases "isAbsoluteRef base (trim (url a))")
  case True
  with assms(2) show ?thesis by (simp add: seedNormalizeAttachment_url trim_idem)
next
  case False
  let ?j = "url (fst (seedNormalizeAttachment rp base a))"
  from False assms(2) have "startsWith ?j ''/''"
    by (simp add: seedNormalizeAttachment_url posix_join_absolute [OF assms(1)])
  then have "startsWith (trim ?j) ''/''" by (rule trim_keeps_slash)
  then show ?thesis by (auto simp: isAbsoluteRef_slash startsWith_def)
qed

lemma normalize_twice_url:
  assumes "startsWith base ''/''"
  shows "url (normalizeAttachment rp base (normalizeAttachment rp base a)) =
           trim (url (normalizeAttachment rp base a))"
  using normalized_is_absolute [OF assms, of rp a]
  by (simp add: normalizeAttachment_absolute)

lemma normalize_twice_trimmed:
  assumes "startsWith base ''/''"
    and "trim (url (normalizeAttachment rp base a)) = url (normalizeAttachment rp base a)"
  shows "normalizeAttachment rp base (normalizeAttachment rp base a) = normalizeAttachment rp base a"
  using normalized_is_absolute [OF assms(1), of rp a] assms(2)
  by (simp add: normalizeAttachment_absolute)

lemma seed_normalize_twice_trimmed:
  assumes "startsWith base ''/''"
    and "trim (url (fst (seedNormalizeAttachment rp base a))) = url (fst (seedNormalizeAttachment rp base a))"
  shows "fst (seedNormalizeAttachment rp base (fst (seedNormalizeAttachment rp base a))) =
           fst (seedNormalizeAttachment rp base a)"
proof (cases "trim (url a) = []")
  case True
  then show ?thesis by (simp add: seedNormalizeAttachment_blank)
next
  case False
  from seed_normalized_is_absolute [OF assms(1) False, of rp] assms(2)
  show ?thesis by (simp add: seedNormalizeAttachment_absolute)
qed

lemma absolute_trimmed:
  "isAbsoluteRef base (trim (url a)) \<Longrightarrow>
   trim (url (normalizeAttachment rp base a)) = url (normalizeAttachment rp base a)"
  by (simp add: normalizeAttachment_url trim_idem)

lemma seed_absolute_trimmed:
  "isAbsoluteRef base (trim (url a)) \<Longrightarrow> trim (url a) \<noteq> [] \<Longrightarrow>
   trim (url (fst (seedNormalizeAttachment rp base a))) = url (fst (seedNormalizeAttachment rp base a))"
  by (simp add: seedNormalizeAttachment_url trim_idem)


text \<open>
  C3 (as amended). With the root resolved against an absolute working directory,
  the url that a first application leaves is absolute for the second one, which
  therefore only trims it. So applying the normaliser twice gives what applying it
  once gives whenever the once-normalised url has no white space at its ends, in
  the consolidator and in the seeder; and always when the url was already an
  external, root-marked, root-prefixed or absolute one before the first application.
\<close>

theorem second_pass_only_trims:
  assumes "startsWith cwd ''/''"
    and "base = path_resolve cwd root"
    and "n1 = normalizeAttachment (relPartsOf relDir) base a"
    and "s1 = fst (seedNormalizeAttachment (relPartsOf relDir) base a)"
  shows "normalizeAttachments cwd [a] relDir root = [n1]
       \<and> url (normalizeAttachment (relPartsOf relDir) base n1) = trim (url n1)
       \<and> (trim (url n1) = url n1 \<longrightarrow> normalizeAttachment (relPartsOf relDir) base n1 = n1)
       \<and> (trim (url s1) = url s1 \<longrightarrow> fst (seedNormalizeAttachment (relPartsOf relDir) base s1) = s1)
       \<and> (isAbsoluteRef base (trim (url a)) \<longrightarrow>
            normalizeAttachment (relPartsOf relDir) base n1 = n1
            \<and> fst (seedNormalizeAttachment (relPartsOf relDir) base s1) = s1)"
proof -
  have b: "startsWith base ''/''"
    unfolding assms(2) using assms(1) by (rule path_resolve_absolute)
  have 1: "normalizeAttachments cwd [a] relDir root = [n1]"
    by (simp add: normalizeAttachments_def assms(2,3))
  have 2: "url (normalizeAttachment (relPartsOf relDir) base n1) = trim (url n1)"
    unfolding assms(3) by (rule normalize_twice_url [OF b])
  have 3: "normalizeAttachment (relPartsOf relDir) base n1 = n1" if "trim (url n1) = url n1"
    using that unfolding assms(3) by (rule normalize_twice_trimmed [OF b])
  have 4: "fst (seedNormalizeAttachment (relPartsOf relDir) base s1) = s1" if "trim (url s1) = url s1"
    using that unfolding assms(4) by (rule seed_normalize_twice_trimmed [OF b])
  have 5: "normalizeAttachment (relPartsOf relDir) base n1 = n1"
    if "isAbsoluteRef base (trim (url a))"
    using absolute_trimmed [OF that, of "relPartsOf relDir"] 3 by (simp add: assms(3))
  have 6: "fst (seedNormalizeAttachment (relPartsOf relDir) base s1) = s1"
    if "isAbsoluteRef base (trim (url a))"
  proof (cases "trim (url a) = []")
    case True
    then show ?thesis by (simp add: assms(4) seedNormalizeAttachment_blank)
  next
    case False
    from seed_absolute_trimmed [OF that False, of "relPartsOf relDir"] 4
    show ?thesis by (simp add: assms(4))
  qed
  from 1 2 3 4 5 6 show ?thesis by blast
qed

theorem second_pass_only_trims_witness:
  "(let a = \<lparr>att_id = ''a1'', url = '' ./img/q1.png '', type = ''question''\<rparr>;
        rp = relPartsOf ''python'';
        base = path_resolve ''/home/u'' ''/srv/quizzes'';
        n1 = normalizeAttachment rp base a;
        s1 = fst (seedNormalizeAttachment rp base a)
    in startsWith ''/home/u'' ''/''
       \<and> url n1 = ''/srv/quizzes/python/img/q1.png'' \<and> normalizeAttachment rp base n1 = n1
       \<and> url s1 = ''/srv/quizzes/python/img/q1.png'' \<and> fst (seedNormalizeAttachment rp base s1) = s1)"
proof -
  let ?a = "\<lparr>att_id = ''a1'', url = '' ./img/q1.png '', type = ''question''\<rparr>"
  let ?rp = "relPartsOf ''python''"
  let ?base = "path_resolve ''/home/u'' ''/srv/quizzes''"
  have c: "startsWith ''/home/u'' ''/''" by (simp add: startsWith_def)
  have u: "url (normalizeAttachment ?rp ?base ?a) = ''/srv/quizzes/python/img/q1.png''"
    "url (fst (seedNormalizeAttachment ?rp ?base ?a)) = ''/srv/quizzes/python/img/q1.png''"
    by code_simp+
  have t: "trim ''/srv/quizzes/python/img/q1.png'' = ''/srv/quizzes/python/img/q1.png''"
    by code_simp
  from second_pass_only_trims [OF c refl refl refl, where root = "''/srv/quizzes''"
      and relDir = "''python''" and a = ?a] u t c
  show ?thesis by (simp add: Let_def)
qed

text \<open>
  The claim as stated fails where the joined path ends in white space: the second
  application trims it off. Here \<open>..\<close> removes the segment after \<open>a \<close>.
\<close>

theorem second_pass_changes:
  "(let a = \<lparr>att_id = ''a1'', url = ''a /b/..'', type = ''question''\<rparr>;
        n1 = normalizeAttachments ''/home/u'' [a] ''python'' ''/srv/quizzes'';
        n2 = normalizeAttachments ''/home/u'' n1 ''python'' ''/srv/quizzes''
    in map url n1 = [''/srv/quizzes/python/a ''] \<and> map url n2 = [''/srv/quizzes/python/a'']
       \<and> n2 \<noteq> n1)"
  by code_simp

lemma splitBy_append:
  "isSep c \<Longrightarrow> splitBy isSep (a @ c # b) = splitBy isSep a @ splitBy isSep b"
proof (induction a)
  case Nil
  then show ?case by simp
next
  case (Cons x a)
  then show ?case
    using splitBy_nonempty [of isSep a]
    by (cases "splitBy isSep a") (auto split: list.splits)
qed

lemma normalizeSegments_append:
  "normalizeSegments al acc (xs @ ys) =
     normalizeSegments al (rev (normalizeSegments al acc xs)) ys"
  by (induction al acc xs rule: normalizeSegments.induct) (auto split: list.splits)

lemma normalizeSegments_skip_empty:
  "normalizeSegments al acc (xs @ [] # ys) = normalizeSegments al acc (xs @ ys)"
  by (simp add: normalizeSegments_append [of al acc xs])

lemma normalizeString_double_slash:
  "normalizeString (p @ ''//'' @ s) al = normalizeString (p @ ''/'' @ s) al"
proof -
  have "splitOn CHR ''/'' (p @ ''//'' @ s) = splitOn CHR ''/'' p @ [] # splitOn CHR ''/'' s"
    using splitBy_append [of "\<lambda>c. c = CHR ''/''" "CHR ''/''" p "CHR ''/'' # s"]
    by (simp add: splitOn_def)
  moreover have "splitOn CHR ''/'' (p @ ''/'' @ s) = splitOn CHR ''/'' p @ splitOn CHR ''/'' s"
    using splitBy_append [of "\<lambda>c. c = CHR ''/''" "CHR ''/''" p s]
    by (simp add: splitOn_def)
  ultimately show ?thesis
    by (simp add: normalizeString_def normalizeSegments_skip_empty)
qed

lemma posix_normalize_double_slash:
  assumes "p \<noteq> []" and "s \<noteq> []"
  shows "posix_normalize (p @ ''//'' @ s) = posix_normalize (p @ ''/'' @ s)"
  using assms normalizeString_double_slash [of p s]
  by (simp add: posix_normalize_def Let_def)

lemma joinWith_snoc:
  "xs \<noteq> [] \<Longrightarrow> joinWith sep (xs @ [y]) = joinWith sep xs @ sep @ y"
  by (induction sep xs rule: joinWith.induct) auto

lemma joinWith_nonempty:
  "xs \<noteq> [] \<Longrightarrow> list_all (\<lambda>x. x \<noteq> []) xs \<Longrightarrow> joinWith sep xs \<noteq> []"
  by (induction sep xs rule: joinWith.induct) auto

lemma posix_join_leading_slash:
  assumes "base \<noteq> []" and "s \<noteq> []"
  shows "posix_join (base # rp @ [CHR ''/'' # s]) = posix_join (base # rp @ [s])"
proof -
  let ?u = "base # filter (\<lambda>a. a \<noteq> []) rp"
  have n: "?u \<noteq> []" by simp
  have a: "list_all (\<lambda>x. x \<noteq> []) ?u" using assms(1) by (simp add: list_all_iff)
  have j: "joinWith ''/'' ?u \<noteq> []" by (rule joinWith_nonempty [OF n a])
  have f1: "filter (\<lambda>a. a \<noteq> []) (base # rp @ [CHR ''/'' # s]) = ?u @ [CHR ''/'' # s]"
    using assms by simp
  have f2: "filter (\<lambda>a. a \<noteq> []) (base # rp @ [s]) = ?u @ [s]"
    using assms by simp
  have "posix_join (base # rp @ [CHR ''/'' # s]) = posix_normalize (joinWith ''/'' ?u @ ''//'' @ s)"
    unfolding posix_join_def f1 Let_def using joinWith_snoc [OF n, of "''/''" "CHR ''/'' # s"] by simp
  also have "\<dots> = posix_normalize (joinWith ''/'' ?u @ ''/'' @ s)"
    by (rule posix_normalize_double_slash [OF j assms(2)])
  also have "\<dots> = posix_join (base # rp @ [s])"
    unfolding posix_join_def f2 Let_def using joinWith_snoc [OF n, of "''/''" s] by simp
  finally show ?thesis .
qed


lemma stripPrefix_no: "\<not> startsWith s p \<Longrightarrow> stripPrefix p s = s"
  by (simp add: stripPrefix_def)

lemma stripPrefix_yes: "startsWith s p \<Longrightarrow> stripPrefix p s = drop (length p) s"
  by (simp add: stripPrefix_def)

lemma clean_agrees:
  assumes "base \<noteq> []" and "\<not> startsWith t ''/''" and "t \<noteq> ''.//''"
  shows "posix_join (base # rp @ [stripPrefix ''/'' (stripPrefix ''./'' t)]) =
         posix_join (base # rp @ [stripPrefix ''./'' t])"
proof (cases "startsWith t ''./''")
  case False
  with assms(2) show ?thesis by (simp add: stripPrefix_no)
next
  case True
  define d where "d = stripPrefix ''./'' t"
  from True have t: "t = ''./'' @ d"
    unfolding d_def stripPrefix_yes [OF True]
    by (metis append_take_drop_id startsWith_def)
  show ?thesis
  proof (cases "startsWith d ''/''")
    case False
    then show ?thesis unfolding d_def [symmetric] by (simp add: stripPrefix_no)
  next
    case s: True
    then obtain r where r: "d = CHR ''/'' # r"
      by (cases d) (auto simp: startsWith_def)
    with t assms(3) have "r \<noteq> []" by auto
    from posix_join_leading_slash [OF assms(1) this, of rp] r
    show ?thesis unfolding d_def [symmetric] by (simp add: stripPrefix_def startsWith_def)
  qed
qed

text \<open>
  What the consolidator does with a relative reference: it strips one leading \<open>./\<close>
  and then one leading \<open>/\<close>, where present, and joins the root prefix, the
  directory's segments and the cleaned reference. For every reference but \<open>.//\<close>
  this is the url the specification words.
\<close>

lemma relative_reference_joined:
  assumes "t = trim (url a)"
    and "\<not> isHttpUrl t" and "\<not> startsWith t ''~''" and "\<not> startsWith t ''/''"
    and "\<not> startsWith t basePrefix"
  shows "url (normalizeAttachment relParts basePrefix a) =
           posix_join (basePrefix # relParts @ [stripPrefix ''/'' (stripPrefix ''./'' t)])
       \<and> (t \<noteq> ''.//'' \<longrightarrow>
            url (normalizeAttachment relParts basePrefix a) =
              spec_normalized_url relParts basePrefix (url a))"
proof -
  from assms have n: "\<not> isAbsoluteRef basePrefix (trim (url a))"
    by (simp add: isAbsoluteRef_def)
  from assms(5) have b: "basePrefix \<noteq> []" by (auto simp: startsWith_def)
  from n have 1: "url (normalizeAttachment relParts basePrefix a) =
           posix_join (basePrefix # relParts @ [stripPrefix ''/'' (stripPrefix ''./'' t)])"
    by (simp add: normalizeAttachment_url assms(1))
  have 2: "url (normalizeAttachment relParts basePrefix a) =
              spec_normalized_url relParts basePrefix (url a)" if "t \<noteq> ''.//''"
    unfolding 1 spec_normalized_url_def assms(1) [symmetric]
    by (rule clean_agrees [OF b assms(4) that])
  from 1 2 show ?thesis by blast
qed

lemma relative_reference_scenario:
  "(let a = \<lparr>att_id = ''a1'', url = ''./img/q1.png'', type = ''question''\<rparr>;
        base = path_resolve ''/home/u'' ''/srv/quizzes''
    in \<not> isAbsoluteRef base (trim (url a))
       \<and> base = ''/srv/quizzes''
       \<and> map url (normalizeAttachments ''/home/u'' [a] ''python'' ''/srv/quizzes'') =
           [''/srv/quizzes/python/img/q1.png'']
       \<and> spec_normalized_url (relPartsOf ''python'') base (url a) = ''/srv/quizzes/python/img/q1.png'')"
proof -
  let ?a = "\<lparr>att_id = ''a1'', url = ''./img/q1.png'', type = ''question''\<rparr>"
  let ?base = "path_resolve ''/home/u'' ''/srv/quizzes''"
  have h: "\<not> isHttpUrl (trim (url ?a))" "\<not> startsWith (trim (url ?a)) ''~''"
    "\<not> startsWith (trim (url ?a)) ''/''" "\<not> startsWith (trim (url ?a)) ?base"
    "trim (url ?a) \<noteq> ''.//''"
    by code_simp+
  have e: "posix_join (?base # relPartsOf ''python'' @
             [stripPrefix ''/'' (stripPrefix ''./'' (trim (url ?a)))]) = ''/srv/quizzes/python/img/q1.png''"
    "?base = ''/srv/quizzes''"
    by code_simp+
  note r = relative_reference_joined [OF refl h(1-4), of "relPartsOf ''python''"]
  from r e(1) have u: "url (normalizeAttachment (relPartsOf ''python'') ?base ?a) =
      ''/srv/quizzes/python/img/q1.png''"
    by simp
  from r h(5) have "url (normalizeAttachment (relPartsOf ''python'') ?base ?a) =
      spec_normalized_url (relPartsOf ''python'') ?base (url ?a)"
    by blast
  with u have v: "spec_normalized_url (relPartsOf ''python'') ?base (url ?a) =
      ''/srv/quizzes/python/img/q1.png''"
    by simp
  from h(1-4) have n: "\<not> isAbsoluteRef ?base (trim (url ?a))"
    by (simp add: isAbsoluteRef_def)
  from u have w: "map url (normalizeAttachments ''/home/u'' [?a] ''python'' ''/srv/quizzes'') =
           [''/srv/quizzes/python/img/q1.png'']"
    by (simp add: normalizeAttachments_def)
  from n e(2) w v show ?thesis unfolding Let_def by (intro conjI)
qed

text \<open>
  C4. A reference that is no http or https url and starts neither with \<open>~\<close>, nor
  with \<open>/\<close>, nor with the resolved root prefix is to lose one leading \<open>./\<close> and to
  be joined to the root prefix and the directory's segments. On the reference \<open>.//\<close>
  the consolidator does not do so: what is left after the \<open>./\<close> is \<open>/\<close>, whose join
  ends in a slash, as the url of the seeder does; the consolidator strips the \<open>/\<close>
  as well and joins the empty reference.
\<close>

theorem dot_double_slash:
  "(let a = \<lparr>att_id = ''a1'', url = ''.//'', type = ''question''\<rparr>;
        base = path_resolve ''/home/u'' ''/srv/quizzes''
    in \<not> isAbsoluteRef base (trim (url a))
       \<and> map url (normalizeAttachments ''/home/u'' [a] ''python'' ''/srv/quizzes'') =
           [''/srv/quizzes/python'']
       \<and> spec_normalized_url (relPartsOf ''python'') base (url a) = ''/srv/quizzes/python/''
       \<and> url (fst (seedNormalizeAttachment (relPartsOf ''python'') base a)) =
           ''/srv/quizzes/python/'')"
  by code_simp

lemma normalizers_agree:
  assumes "trim (url a) \<noteq> []" and "trim (url a) \<noteq> ''.//''"
  shows "fst (seedNormalizeAttachment rp base a) = normalizeAttachment rp base a"
proof (cases "isAbsoluteRef base (trim (url a))")
  case True
  with assms(1) show ?thesis
    by (simp add: seedNormalizeAttachment_absolute normalizeAttachment_absolute)
next
  case False
  then have s: "\<not> startsWith (trim (url a)) ''/''" and b: "base \<noteq> []"
    by (auto simp: isAbsoluteRef_def startsWith_def)
  have c: "(if startsWith (trim (url a)) ''./'' then drop 2 (trim (url a))
            else if startsWith (trim (url a)) ''/'' then drop 1 (trim (url a))
            else trim (url a)) = stripPrefix ''./'' (trim (url a))"
    using s by (simp add: stripPrefix_def numeral_2_eq_2)
  from False assms(1) show ?thesis
    unfolding seedNormalizeAttachment_def normalizeAttachment_def Let_def c
    using clean_agrees [OF b s assms(2), of rp] by simp
qed

text \<open>
  C10. The two normalisers do not agree on every url. An empty or blank url stays
  as it is in the seeder, which returns early on it, and becomes the path of the
  directory in the consolidator; and \<open>.//\<close> keeps a trailing slash in the seeder
  only. On every other url they return the same record.
\<close>

theorem normalizers_differ:
  "(let rp = relPartsOf ''python'';
        base = path_resolve ''/home/u'' ''/srv/quizzes'';
        blank = \<lparr>att_id = ''a1'', url = '''', type = ''question''\<rparr>;
        spaces = \<lparr>att_id = ''a2'', url = ''  '', type = ''question''\<rparr>;
        dots = \<lparr>att_id = ''a3'', url = ''.//'', type = ''question''\<rparr>
    in url (normalizeAttachment rp base blank) = ''/srv/quizzes/python''
       \<and> url (fst (seedNormalizeAttachment rp base blank)) = ''''
       \<and> url (normalizeAttachment rp base spaces) = ''/srv/quizzes/python''
       \<and> url (fst (seedNormalizeAttachment rp base spaces)) = ''  ''
       \<and> url (normalizeAttachment rp base dots) = ''/srv/quizzes/python''
       \<and> url (fst (seedNormalizeAttachment rp base dots)) = ''/srv/quizzes/python/'')"
  by code_simp

subsection \<open>Consolidation\<close>

lemma restamp_backrefs [simp]:
  "setId (restamp cwd relDir root sid qzid q) = sid"
  "quizzId (restamp cwd relDir root sid qzid q) = qzid"
  by (simp_all add: restamp_def question.defs set_question.defs)

lemma buildSet_fields [simp]:
  "set_id (buildSet cwd relDir root qzid e) = qzid @ ''-'' @ pf_language e"
  "set_language (buildSet cwd relDir root qzid e) = pf_language e"
  "length (set_questions (buildSet cwd relDir root qzid e)) = length (questions (quizz (data e)))"
  by (simp_all add: buildSet_def Let_def)

lemma buildSet_backrefs:
  "q \<in> set (set_questions (buildSet cwd relDir root qzid e)) \<Longrightarrow>
   setId q = set_id (buildSet cwd relDir root qzid e) \<and> quizzId q = qzid"
  by (auto simp: buildSet_def Let_def)

lemma combine_backrefs:
  assumes "s \<in> set (sets (cquizz (combine cwd uuid now relDir dir root ps)))"
    and "q \<in> set (set_questions s)"
  shows "setId q = set_id s \<and> quizzId q = cq_id (cquizz (combine cwd uuid now relDir dir root ps))"
  using assms by (auto simp: combine_def Let_def dest: buildSet_backrefs)

lemma sort_en_fr:
  assumes "pf_language a = ''en''" and "pf_language b = ''fr''"
  shows "sortByLanguage [a, b] = [a, b]" and "sortByLanguage [b, a] = [a, b]"
  using assms by (simp_all add: sortByLanguage_def)

lemma pickBase_en:
  "pf_language a = ''en'' \<Longrightarrow> pickBase (a # rest) = Some a"
  by (simp add: pickBase_def)


lemma combine_en_fr:
  assumes "pf_language a = ''en''" and "pf_language b = ''fr''"
    and "ps = [a, b] \<or> ps = [b, a]"
    and "c = combine cwd uuid now relDir dir root ps"
  shows "map set_language (sets (cquizz c)) = [''en'', ''fr'']"
    and "languages (cmeta c) = [''en'', ''fr'']"
    and "cq_id (cquizz c) =
           (if quizz_id (quizz (data a)) \<noteq> [] then quizz_id (quizz (data a)) else uuid)"
    and "slug (cquizz c) =
           (if slugify (title (quizz (data a))) \<noteq> [] then slugify (title (quizz (data a)))
            else basename dir)"
    and "cq_createdById (cquizz c) =
           (if createdById (quizz (data a)) \<noteq> [] then createdById (quizz (data a))
            else DEFAULT_CREATOR)"
    and "map set_id (sets (cquizz c)) = [cq_id (cquizz c) @ ''-en'', cq_id (cquizz c) @ ''-fr'']"
proof -
  from assms(1-3) have s: "sortByLanguage ps = [a, b]"
    using sort_en_fr [of a b] by auto
  show "map set_language (sets (cquizz c)) = [''en'', ''fr'']"
    and "languages (cmeta c) = [''en'', ''fr'']"
    and "cq_id (cquizz c) =
           (if quizz_id (quizz (data a)) \<noteq> [] then quizz_id (quizz (data a)) else uuid)"
    and "slug (cquizz c) =
           (if slugify (title (quizz (data a))) \<noteq> [] then slugify (title (quizz (data a)))
            else basename dir)"
    and "cq_createdById (cquizz c) =
           (if createdById (quizz (data a)) \<noteq> [] then createdById (quizz (data a))
            else DEFAULT_CREATOR)"
    and "map set_id (sets (cquizz c)) = [cq_id (cquizz c) @ ''-en'', cq_id (cquizz c) @ ''-fr'']"
    unfolding assms(4) combine_def Let_def s pickBase_en [OF assms(1)]
    using assms(1,2) by simp_all
qed

text \<open>
  C5 (as amended). Two documents of one directory, one inferred to be \<open>en\<close> and
  one \<open>fr\<close>, in either order, consolidate into one aggregate with exactly two sets,
  \<open>en\<close> before \<open>fr\<close>, and \<open>meta.languages = [en, fr]\<close>. The aggregate takes from the
  \<open>en\<close> document its id, the slug of its title and its creator, each where not
  empty; an empty one is replaced by the random id, the base name of the directory
  and the default creator. Every question of every set carries the id of its set
  and the id of the aggregate.
\<close>

theorem en_fr_consolidation:
  assumes "files = [(f1, Some d1), (f2, Some d2)]"
    and "l1 = inferLanguage (language (meta d1)) f1"
    and "l2 = inferLanguage (language (meta d2)) f2"
    and "(l1 = ''en'' \<and> l2 = ''fr'' \<and> en = d1) \<or> (l1 = ''fr'' \<and> l2 = ''en'' \<and> en = d2)"
  shows "\<exists>c. buildCombinedPayload cwd uuid now relDir dir files root = Inr c
     \<and> map set_language (sets (cquizz c)) = [''en'', ''fr'']
     \<and> languages (cmeta c) = [''en'', ''fr'']
     \<and> cq_id (cquizz c) = (if quizz_id (quizz en) \<noteq> [] then quizz_id (quizz en) else uuid)
     \<and> slug (cquizz c) =
         (if slugify (title (quizz en)) \<noteq> [] then slugify (title (quizz en)) else basename dir)
     \<and> cq_createdById (cquizz c) =
         (if createdById (quizz en) \<noteq> [] then createdById (quizz en) else DEFAULT_CREATOR)
     \<and> map set_id (sets (cquizz c)) = [cq_id (cquizz c) @ ''-en'', cq_id (cquizz c) @ ''-fr'']
     \<and> (\<forall>s\<in>set (sets (cquizz c)). \<forall>q\<in>set (set_questions s).
            setId q = set_id s \<and> quizzId q = cq_id (cquizz c))"
proof -
  let ?p1 = "\<lparr>pf_file = f1, pf_language = l1, data = d1\<rparr>"
  let ?p2 = "\<lparr>pf_file = f2, pf_language = l2, data = d2\<rparr>"
  let ?c = "combine cwd uuid now relDir dir root [?p1, ?p2]"
  have r: "buildCombinedPayload cwd uuid now relDir dir files root = Inr ?c"
    by (simp add: buildCombinedPayload_def assms(1-3))
  have b: "\<forall>s\<in>set (sets (cquizz ?c)). \<forall>q\<in>set (set_questions s).
            setId q = set_id s \<and> quizzId q = cq_id (cquizz ?c)"
    using combine_backrefs by blast
  from assms(4) show ?thesis
  proof
    assume a: "l1 = ''en'' \<and> l2 = ''fr'' \<and> en = d1"
    then have "pf_language ?p1 = ''en''" "pf_language ?p2 = ''fr''" "data ?p1 = en" by simp_all
    from combine_en_fr [OF this(1,2) _ refl, of "[?p1, ?p2]" cwd uuid now relDir dir root] this(3) r b
    show ?thesis by simp
  next
    assume a: "l1 = ''fr'' \<and> l2 = ''en'' \<and> en = d2"
    then have "pf_language ?p2 = ''en''" "pf_language ?p1 = ''fr''" "data ?p2 = en" by simp_all
    from combine_en_fr [OF this(1,2) _ refl, of "[?p1, ?p2]" cwd uuid now relDir dir root] this(3) r b
    show ?thesis by simp
  qed
qed


theorem en_fr_consolidation_witness:
  "(let en = \<lparr>quizz = \<lparr>quizz_id = ''5357dda4d5cd74202128d676'', title = ''Python Quiz'',
                 description = ''Seeded from python/python-quiz.md'', createdById = ''seed-user'',
                 questions = [\<lparr>qid = ''c746026e72d178f44b387382'', question = ''What is 2+2?'',
                   answer = Some ''4'', explanation = None, hint = None, correctAnswer = [''4''],
                   options = [''3'', ''4''], nature = ChooseOne,
                   attachments = [\<lparr>att_id = ''a1'', url = ''./img/q1.png'', type = ''question''\<rparr>]\<rparr>]\<rparr>,
       meta = \<lparr>source = ''python/python-quiz.md'', language = ''md'',
                generatedAt = ''2024-01-01T00:00:00.000Z'', warnings = []\<rparr>\<rparr>;
        fr = \<lparr>quizz = \<lparr>quizz_id = ''0f1e2d3c4b5a69788796a5b4'', title = ''Quiz Python'',
                 description = ''Seeded from python/python-quiz-fr.md'', createdById = ''seed-user'',
                 questions = [\<lparr>qid = ''7d0c9f8e7a6b5c4d3e2f1a0b'', question = ''Combien font 2+2 ?'',
                   answer = Some ''4'', explanation = None, hint = None, correctAnswer = [''4''],
                   options = [''3'', ''4''], nature = ChooseOne, attachments = []\<rparr>]\<rparr>,
       meta = \<lparr>source = ''python/python-quiz-fr.md'', language = ''fr'',
                generatedAt = ''2024-01-01T00:00:00.000Z'', warnings = []\<rparr>\<rparr>
    in case buildCombinedPayload ''/home/u'' ''123e4567-e89b-42d3-a456-426614174000''
               ''2024-02-02T00:00:00.000Z'' ''python'' ''/srv/quizzes/python''
               [(''/srv/quizzes/python/python-quiz-fr.json'', Some fr),
                (''/srv/quizzes/python/python-quiz.json'', Some en)] ''/srv/quizzes'' of
         Inl e \<Rightarrow> False
       | Inr c \<Rightarrow>
           languages (cmeta c) = [''en'', ''fr'']
           \<and> cq_id (cquizz c) = ''5357dda4d5cd74202128d676''
           \<and> slug (cquizz c) = ''python-quiz''
           \<and> cq_createdById (cquizz c) = ''seed-user''
           \<and> map set_id (sets (cquizz c)) =
               [''5357dda4d5cd74202128d676-en'', ''5357dda4d5cd74202128d676-fr'']
           \<and> (\<forall>s\<in>set (sets (cquizz c)). \<forall>q\<in>set (set_questions s).
                  setId q = set_id s \<and> quizzId q = ''5357dda4d5cd74202128d676''))"
proof -
  let ?en = "\<lparr>quizz = \<lparr>quizz_id = ''5357dda4d5cd74202128d676'', title = ''Python Quiz'',
                 description = ''Seeded from python/python-quiz.md'', createdById = ''seed-user'',
                 questions = [\<lparr>qid = ''c746026e72d178f44b387382'', question = ''What is 2+2?'',
                   answer = Some ''4'', explanation = None, hint = None, correctAnswer = [''4''],
                   options = [''3'', ''4''], nature = ChooseOne,
                   attachments = [\<lparr>att_id = ''a1'', url = ''./img/q1.png'', type = ''question''\<rparr>]\<rparr>]\<rparr>,
       meta = \<lparr>source = ''python/python-quiz.md'', language = ''md'',
                generatedAt = ''2024-01-01T00:00:00.000Z'', warnings = []\<rparr>\<rparr>"
  let ?fr = "\<lparr>quizz = \<lparr>quizz_id = ''0f1e2d3c4b5a69788796a5b4'', title = ''Quiz Python'',
                 description = ''Seeded from python/python-quiz-fr.md'', createdById = ''seed-user'',
                 questions = [\<lparr>qid = ''7d0c9f8e7a6b5c4d3e2f1a0b'', question = ''Combien font 2+2 ?'',
                   answer = Some ''4'', explanation = None, hint = None, correctAnswer = [''4''],
                   options = [''3'', ''4''], nature = ChooseOne, attachments = []\<rparr>]\<rparr>,
       meta = \<lparr>source = ''python/python-quiz-fr.md'', language = ''fr'',
                generatedAt = ''2024-01-01T00:00:00.000Z'', warnings = []\<rparr>\<rparr>"
  have l: "inferLanguage (language (meta ?fr)) ''/srv/quizzes/python/python-quiz-fr.json'' = ''fr''"
    "inferLanguage (language (meta ?en)) ''/srv/quizzes/python/python-quiz.json'' = ''en''"
    by code_simp+
  have g: "slugify ''Python Quiz'' = ''python-quiz''"
    by code_simp
  have h: "(''fr'' = ''en'' \<and> ''en'' = ''fr'' \<and> ?en = ?fr) \<or> (''fr'' = ''fr'' \<and> ''en'' = ''en'' \<and> ?en = ?en)"
    by simp
  from en_fr_consolidation [OF refl l(1) [symmetric] l(2) [symmetric] h,
      of "''/home/u''" "''123e4567-e89b-42d3-a456-426614174000''" "''2024-02-02T00:00:00.000Z''"
         "''python''" "''/srv/quizzes/python''" "''/srv/quizzes''"]
  obtain c where c: "buildCombinedPayload ''/home/u'' ''123e4567-e89b-42d3-a456-426614174000''
               ''2024-02-02T00:00:00.000Z'' ''python'' ''/srv/quizzes/python''
               [(''/srv/quizzes/python/python-quiz-fr.json'', Some ?fr),
                (''/srv/quizzes/python/python-quiz.json'', Some ?en)] ''/srv/quizzes'' = Inr c"
      "languages (cmeta c) = [''en'', ''fr'']"
      "cq_id (cquizz c) = ''5357dda4d5cd74202128d676''"
      "slug (cquizz c) = ''python-quiz''"
      "cq_createdById (cquizz c) = ''seed-user''"
      "map set_id (sets (cquizz c)) = [cq_id (cquizz c) @ ''-en'', cq_id (cquizz c) @ ''-fr'']"
      "\<forall>s\<in>set (sets (cquizz c)). \<forall>q\<in>set (set_questions s).
            setId q = set_id s \<and> quizzId q = cq_id (cquizz c)"
    by (auto simp: g)
  then show ?thesis unfolding Let_def by simp
qed

text \<open>
  The claim as stated fails when the \<open>en\<close> document has nothing to give: a title
  without a letter or digit has the empty slug, and the slug is then the base name of
  the directory; an empty creator is replaced by the default one.
\<close>

theorem base_fallbacks:
  "(let en = \<lparr>quizz = \<lparr>quizz_id = ''5357dda4d5cd74202128d676'', title = ''???'',
                 description = ''Seeded from python/python-quiz.md'', createdById = '''',
                 questions = []\<rparr>,
       meta = \<lparr>source = ''python/python-quiz.md'', language = ''md'',
                generatedAt = ''2024-01-01T00:00:00.000Z'', warnings = []\<rparr>\<rparr>;
        fr = \<lparr>quizz = \<lparr>quizz_id = ''0f1e2d3c4b5a69788796a5b4'', title = ''Quiz Python'',
                 description = ''Seeded from python/python-quiz-fr.md'', createdById = ''seed-user'',
                 questions = []\<rparr>,
       meta = \<lparr>source = ''python/python-quiz-fr.md'', language = ''fr'',
                generatedAt = ''2024-01-01T00:00:00.000Z'', warnings = []\<rparr>\<rparr>
    in slugify (title (quizz en)) = [] \<and> createdById (quizz en) = []
       \<and> (case buildCombinedPayload ''/home/u'' ''123e4567-e89b-42d3-a456-426614174000''
               ''2024-02-02T00:00:00.000Z'' ''python'' ''/srv/quizzes/python''
               [(''/srv/quizzes/python/python-quiz-fr.json'', Some fr),
                (''/srv/quizzes/python/python-quiz.json'', Some en)] ''/srv/quizzes'' of
             Inl e \<Rightarrow> False
           | Inr c \<Rightarrow>
               languages (cmeta c) = [''en'', ''fr'']
               \<and> slug (cquizz c) = ''python''
               \<and> cq_createdById (cquizz c) = ''cmiz68drf00004eqsc3izonqy''))"
  by code_simp

subsection \<open>Identifiers\<close>




















end
